theory Spec2Isabelle
  imports Main "HOL-Library.List_Lexorder" "HOL-Library.Product_Lexorder"
begin

section \<open>chem\_route\_extractor.py: data model\<close>

text \<open>
  A Python \<open>str\<close> is a sequence of Unicode code points; \<open>len\<close> and slicing count code
  points. Text is therefore a list of code points, and an ASCII literal is written
  \<open>U ''abc''\<close>.
\<close>

type_synonym str = "nat list"

abbreviation U :: "string \<Rightarrow> str" where
  "U s \<equiv> map of_char s"

subsection \<open>Errors, paths and the file system\<close>

text \<open>
  Exceptions are values. \<open>ImportError\<close> carries the module name, \<open>OSError\<close> stands for
  the file-system errors (FileExistsError, FileNotFoundError, NotADirectoryError,
  IsADirectoryError), \<open>ValueError\<close> is the one python-docx raises on a text that XML
  cannot hold, \<open>Failure\<close> an exception raised inside a collaborator, with its message.
\<close>

datatype error = ImportError str | OSError | ValueError | Failure str

text \<open>
  A \<open>pathlib.Path\<close> is its list of components; \<open>[]\<close> is the current directory.
  \<open>p / c\<close> appends a component.
\<close>

type_synonym path = "str list"

definition name :: "path \<Rightarrow> str" where
  "name p = (if p = [] then [] else last p)"

text \<open>\<open>str.rfind\<close> of one character: the last index where it occurs.\<close>

fun rfind :: "nat \<Rightarrow> str \<Rightarrow> nat option" where
  "rfind c [] = None"
| "rfind c (x # xs) =
     (case rfind c xs of
        Some i \<Rightarrow> Some (Suc i)
      | None \<Rightarrow> if x = c then Some 0 else None)"

text \<open>
  \<open>PurePath.suffix\<close> and \<open>PurePath.stem\<close> (CPython up to 3.13):
  \<open>i = name.rfind('.')\<close>; the suffix is \<open>name[i:]\<close> if \<open>0 < i < len(name) - 1\<close> and
  empty otherwise.
\<close>

definition suffix :: "path \<Rightarrow> str" where
  "suffix p =
     (case rfind 46 (name p) of
        Some i \<Rightarrow> if 0 < i \<and> i + 1 < length (name p) then drop i (name p) else []
      | None \<Rightarrow> [])"

definition stem :: "path \<Rightarrow> str" where
  "stem p =
     (case rfind 46 (name p) of
        Some i \<Rightarrow> if 0 < i \<and> i + 1 < length (name p) then take i (name p) else name p
      | None \<Rightarrow> name p)"

text \<open>
  \<open>str.lower\<close> on ASCII letters; code points outside ASCII are left as they are (the
  Unicode case tables are not modelled). No code point outside ASCII lower-cases to one
  of \<open>. p d f\<close>, so the comparison with \<open>'.pdf'\<close> is exact.
\<close>

definition lower :: "str \<Rightarrow> str" where
  "lower s = map (\<lambda>c. if 65 \<le> c \<and> c \<le> 90 then c + 32 else c) s"

definition startswith :: "str \<Rightarrow> str \<Rightarrow> bool" where
  "startswith s t = (take (length t) s = t)"

text \<open>\<open>t in s\<close> on strings.\<close>

fun contains :: "str \<Rightarrow> str \<Rightarrow> bool" where
  "contains [] t = (t = [])"
| "contains (x # xs) t = (startswith (x # xs) t \<or> contains xs t)"

text \<open>
  The file system is the list of its entries, in the order a directory walk yields them.
  Permissions and disk space are not modelled: an operation fails only on the kinds of
  the entries involved.
\<close>

datatype kind = File | Dir

type_synonym filesystem = "(path \<times> kind) list"

definition is_file :: "filesystem \<Rightarrow> path \<Rightarrow> bool" where
  "is_file fs p = (map_of fs p = Some File)"

definition is_dir :: "filesystem \<Rightarrow> path \<Rightarrow> bool" where
  "is_dir fs p = (p = [] \<or> map_of fs p = Some Dir)"

definition exists :: "filesystem \<Rightarrow> path \<Rightarrow> bool" where
  "exists fs p = (p = [] \<or> map_of fs p \<noteq> None)"

text \<open>
  \<open>Path.mkdir(exist_ok=True)\<close>: an existing directory is accepted, an existing file
  raises FileExistsError, a missing parent FileNotFoundError.
\<close>

definition mkdir :: "filesystem \<Rightarrow> path \<Rightarrow> error + filesystem" where
  "mkdir fs p =
     (if is_dir fs p then Inr fs
      else if exists fs p then Inl OSError
      else if is_dir fs (butlast p) then Inr (fs @ [(p, Dir)])
      else Inl OSError)"

text \<open>\<open>Path.mkdir(parents=True, exist_ok=True)\<close>: the same for every ancestor in turn.\<close>

fun mkdir_from :: "filesystem \<Rightarrow> path \<Rightarrow> str list \<Rightarrow> error + filesystem" where
  "mkdir_from fs pre [] = Inr fs"
| "mkdir_from fs pre (c # cs) =
     (case mkdir fs (pre @ [c]) of
        Inl e \<Rightarrow> Inl e
      | Inr fs' \<Rightarrow> mkdir_from fs' (pre @ [c]) cs)"

definition mkdir_parents :: "filesystem \<Rightarrow> path \<Rightarrow> error + filesystem" where
  "mkdir_parents fs p = mkdir_from fs [] p"

text \<open>
  Writing a file (\<open>open(p, 'w')\<close>, \<open>Image.save\<close>, \<open>Document.save\<close>): fails on a
  directory and under a missing parent, otherwise the file exists afterwards.
\<close>

definition write_file :: "filesystem \<Rightarrow> path \<Rightarrow> error + filesystem" where
  "write_file fs p =
     (if is_dir fs p \<or> \<not> is_dir fs (butlast p) then Inl OSError
      else if exists fs p then Inr fs
      else Inr (fs @ [(p, File)]))"

text \<open>
  \<open>input_path.glob("**/*.pdf")\<close>: every entry strictly below the directory, at any
  depth, whose name ends in \<open>.pdf\<close> (the match is case-sensitive on POSIX).
\<close>

definition glob_pdf :: "filesystem \<Rightarrow> path \<Rightarrow> path list" where
  "glob_pdf fs d =
     map fst (filter (\<lambda>(q, k). length d < length q \<and> take (length d) q = d
                       \<and> 4 \<le> length (name q)
                       \<and> drop (length (name q) - 4) (name q) = U ''.pdf'') fs)"

subsection \<open>Raw output of the recognition model\<close>

text \<open>
  The model returns a list of dicts. A key that is absent and a key whose value is falsy
  in the way the code tests it are told apart only where the code does:
  \<open>smiles = None\<close> stands for a candidate without a \<open>'smiles'\<close> key,
  \<open>Some []\<close> for the empty string; \<open>reactants = None\<close> for an entry without that key;
  \<open>fig_page = None\<close> for a figure without a \<open>'page'\<close> key.
\<close>

record species =
  smiles :: "str option"

record raw_reaction =
  reactants :: "species list option"
  products :: "species list option"

record figure_result =
  fig_reactions :: "raw_reaction list option"
  fig_page :: "int option"

subsection \<open>ReactionRecord\<close>

text \<open>
  The reaction dict built at lines 300-306; the image stage adds the last three keys
  (lines 354-356, 361, 365), absent until then.
\<close>

record reaction =
  reaction_id :: int
  page :: int
  reactant_smiles :: str
  product_smiles :: str
  raw_data :: raw_reaction
  reactant_image :: "path option"
  product_image :: "path option"
  images_generated :: "bool option"

subsection \<open>The document under construction\<close>

text \<open>
  A python-docx document is the list of its paragraphs. Every \<open>doc.add_paragraph\<close> of
  create\_word\_document is one constructor; fixed Chinese headings and placeholders are
  constructors without arguments, the formatted ones carry their data. An image
  paragraph carries its runs, a run the items added to it.
\<close>

datatype item = Picture path | Arrow_text

datatype para =
    Title_compounds "str list" bool
  | Title_stem str
  | Empty_paragraph
  | Original_heading
  | Experimental_line str bool
  | Not_extracted
  | Props_heading
  | Prop str
  | Chinese_heading
  | To_translate
  | Reactions_heading
  | Reactions_explanation
  | Reaction_header int int
  | Smiles_preview str str
  | Image_paragraph "item list list"
  | Image_missing
  | Spectra_heading
  | To_complete
  | Rule
  | Meta str int int nat

datatype language = zh | en | both

subsection \<open>ExtractedTextInfo\<close>

text \<open>The dict returned by extract\_text\_info; \<open>error\<close> is the key of line 246.\<close>

record text_info =
  experimental_text :: str
  compounds :: "str list"
  physical_props :: "str list"
  compound_descriptions :: "(str \<times> str) list"
  total_pages :: int
  pages_processed :: int
  source_pdf :: path
  error :: "error option"

subsection \<open>Command line\<close>

text \<open>The argparse namespace of lines 49-101: \<open>arg_input\<close> is \<open>args.input\<close>, and so on;
  \<open>arg_template\<close> and \<open>arg_config\<close> are \<open>None\<close> when the option is not given.\<close>

record args =
  arg_input :: path
  arg_output :: path
  arg_max_pages :: int
  arg_no_images :: bool
  arg_include_si :: bool
  arg_language :: language
  arg_template :: "path option"
  arg_config :: "path option"
  arg_debug :: bool

subsection \<open>Collaborators\<close>

datatype mol = Mol str

datatype image = Image mol

record config =
  save_raw_data :: bool

text \<open>
  What the program reaches only through library calls is a parameter: one field per
  call, returning \<open>Inl\<close> where the call raises.
  \<^item> \<open>pdfplumber_available\<close>, \<open>rdkit_available\<close>, \<open>docx_available\<close>: whether the
    \<open>import\<close> statements of lines 137, 322-324 and 374-376 succeed.
  \<^item> \<open>pdf_open p\<close>: \<open>pdfplumber.open(p).pages\<close>, each page given by the outcome of its
    \<open>extract_text()\<close> (\<open>None\<close> where it returns \<open>None\<close>).
  \<^item> \<open>unicode_numeric c\<close>: whether the Unicode database gives the code point \<open>c\<close>,
    outside ASCII, a numeric value (the property \<open>str.isnumeric\<close> tests).
  \<^item> \<open>re_experimental\<close>: the experimental text found in the corpus by the regular
    expressions of lines 156-181; \<open>re_compounds\<close>: the elements of the set
    \<open>compounds\<close> of lines 184-198, in the set's iteration order; \<open>re_phys_props\<close>:
    the list \<open>phys_props\<close> of lines 201-214; \<open>re_description c\<close>: \<open>match.group(0)\<close> of
    the search of lines 220-221 for the compound \<open>c\<close>.
  \<^item> \<open>openchemie p n\<close>: lines 254-274, the imports, the model and its
    \<open>extract_reactions_from_figures_in_pdf\<close>.
  \<^item> \<open>MolFromSmiles\<close>, \<open>MolToImage\<close>: RDKit; \<open>Document\<close>: \<open>docx.Document(template)\<close>;
    \<open>add_picture\<close>: \<open>run.add_picture\<close>; \<open>st_size\<close>: the size in bytes of a saved
    document; \<open>load_json\<close>: opening the config file and \<open>json.load\<close>;
    \<open>json_dump\<close>: \<open>json.dump\<close> of the raw data of a document.
\<close>

record env =
  pdfplumber_available :: bool
  pdf_open :: "path \<Rightarrow> error + (error + str option) list"
  unicode_numeric :: "nat \<Rightarrow> bool"
  re_experimental :: "str \<Rightarrow> str"
  re_compounds :: "str \<Rightarrow> str list"
  re_phys_props :: "str \<Rightarrow> str list"
  re_description :: "str \<Rightarrow> str \<Rightarrow> str option"
  openchemie :: "path \<Rightarrow> int \<Rightarrow> error + figure_result list"
  rdkit_available :: bool
  MolFromSmiles :: "str \<Rightarrow> error + mol option"
  MolToImage :: "mol \<Rightarrow> error + image"
  docx_available :: bool
  Document :: "path \<Rightarrow> error + para list"
  add_picture :: "path \<Rightarrow> error + unit"
  st_size :: "path \<Rightarrow> nat"
  load_json :: "path \<Rightarrow> error + config"
  json_dump :: "text_info \<Rightarrow> reaction list \<Rightarrow> error + unit"

section \<open>Input enumeration (find\_pdf\_files, lines 114-133)\<close>

definition find_pdf_files :: "filesystem \<Rightarrow> path \<Rightarrow> bool \<Rightarrow> path list" where
  "find_pdf_files fs input_path include_si =
     (if is_file fs input_path then
        (if lower (suffix input_path) = U ''.pdf'' then [input_path] else [])
      else if is_dir fs input_path then
        filter (\<lambda>pdf_file. \<not> (\<not> include_si \<and> contains (name pdf_file) (U ''SI'')))
          (glob_pdf fs input_path)
      else [])"

section \<open>Text-mining extractor (extract\_text\_info, lines 135-247)\<close>

text \<open>
  Lines 148-153: the text of the processed pages, each followed by a blank line; a page
  without text is skipped, a page whose \<open>extract_text\<close> raises ends the loop with
  that exception.
\<close>

fun read_pages :: "(error + str option) list \<Rightarrow> str \<Rightarrow> error + str" where
  "read_pages [] all_text = Inr all_text"
| "read_pages (pg # rest) all_text =
     (case pg of
        Inl e \<Rightarrow> Inl e
      | Inr None \<Rightarrow> read_pages rest all_text
      | Inr (Some t) \<Rightarrow>
          if t \<noteq> [] then read_pages rest (all_text @ t @ [10, 10])
          else read_pages rest all_text)"

text \<open>
  \<open>str.isnumeric\<close>: the string is not empty and every code point is numeric. In ASCII
  the numeric code points are the digits; outside ASCII the table \<open>N\<close> of the Unicode
  database decides (full-width and Arabic-Indic digits, fractions, and so on).
\<close>

definition isnumeric :: "(nat \<Rightarrow> bool) \<Rightarrow> str \<Rightarrow> bool" where
  "isnumeric N s =
     (s \<noteq> [] \<and> list_all (\<lambda>c. if c < 128 then 48 \<le> c \<and> c \<le> 57 else N c) s)"

text \<open>Line 228: the key \<open>(str(x).isnumeric(), str(x))\<close>; tuples compare lexicographically,
  \<open>False < True\<close>, strings by code point.\<close>

definition compound_key :: "(nat \<Rightarrow> bool) \<Rightarrow> str \<Rightarrow> bool \<times> str" where
  "compound_key N x = (isnumeric N x, x)"

definition sorted_compounds :: "(nat \<Rightarrow> bool) \<Rightarrow> str list \<Rightarrow> str list" where
  "sorted_compounds N cs = sort_key (compound_key N) cs"

text \<open>Lines 217-224: descriptions of the first five compounds of the set.\<close>

definition describe :: "env \<Rightarrow> str \<Rightarrow> str list \<Rightarrow> (str \<times> str) list" where
  "describe E all_text cs =
     List.map_filter
       (\<lambda>c. map_option (\<lambda>d. (c, take 200 d)) (re_description E c all_text))
       (take 5 cs)"

text \<open>Lines 238-247: the record returned by the exception handler.\<close>

definition default_info :: "path \<Rightarrow> error \<Rightarrow> text_info" where
  "default_info pdf_path e =
     \<lparr>experimental_text = [], compounds = [], physical_props = [],
      compound_descriptions = [], total_pages = 0, pages_processed = 0,
      source_pdf = pdf_path, error = Some e\<rparr>"

text \<open>
  The whole function. The \<open>import pdfplumber\<close> of line 137 stands before the \<open>try\<close> of
  line 142, so its ImportError leaves the function; everything from line 143 on is
  inside the \<open>try\<close>.
\<close>

definition extract_text_info :: "env \<Rightarrow> path \<Rightarrow> int \<Rightarrow> error + text_info" where
  "extract_text_info E pdf_path max_pages =
     (if \<not> pdfplumber_available E then Inl (ImportError (U ''pdfplumber''))
      else case pdf_open E pdf_path of
        Inl e \<Rightarrow> Inr (default_info pdf_path e)
      | Inr pages \<Rightarrow>
          let total = int (length pages);
              pages_to_process = min max_pages total
          in case read_pages (take (nat pages_to_process) pages) [] of
               Inl e \<Rightarrow> Inr (default_info pdf_path e)
             | Inr all_text \<Rightarrow>
                 let cs = remdups (re_compounds E all_text)
                 in Inr \<lparr>experimental_text = re_experimental E all_text,
                         compounds = sorted_compounds (unicode_numeric E) cs,
                         physical_props = take 10 (re_phys_props E all_text),
                         compound_descriptions = describe E all_text cs,
                         total_pages = total,
                         pages_processed = pages_to_process,
                         source_pdf = pdf_path,
                         error = None\<rparr>)"

section \<open>Reaction normalizer (extract\_reactions\_with\_openchemie, lines 249-317)\<close>

text \<open>
  Lines 288-291 and 294-297: the first candidate that has a \<open>'smiles'\<close> key with a
  truthy (non-empty) value; the loop breaks there.
\<close>

fun first_smiles :: "species list \<Rightarrow> str option" where
  "first_smiles [] = None"
| "first_smiles (c # cs) =
     (case smiles c of
        Some s \<Rightarrow> if s \<noteq> [] then Some s else first_smiles cs
      | None \<Rightarrow> first_smiles cs)"

text \<open>Lines 287 and 293: the key is present and its list is non-empty.\<close>

definition select_smiles :: "species list option \<Rightarrow> str option" where
  "select_smiles cands = (case cands of None \<Rightarrow> None | Some cs \<Rightarrow> first_smiles cs)"

text \<open>
  Lines 282-308, the inner loop over one figure's entries; \<open>acc\<close> is the list
  \<open>reactions\<close> built so far, \<open>pg\<close> the figure's page value.
\<close>

fun normalize_entries :: "int \<Rightarrow> raw_reaction list \<Rightarrow> reaction list \<Rightarrow> reaction list" where
  "normalize_entries pg [] acc = acc"
| "normalize_entries pg (rxn # rest) acc =
     (case (select_smiles (reactants rxn), select_smiles (products rxn)) of
        (Some r, Some p) \<Rightarrow>
          normalize_entries pg rest
            (acc @ [\<lparr>reaction_id = int (length acc) + 1, page = pg + 1,
                     reactant_smiles = r, product_smiles = p, raw_data = rxn,
                     reactant_image = None, product_image = None,
                     images_generated = None\<rparr>])
      | _ \<Rightarrow> normalize_entries pg rest acc)"

text \<open>Line 279: \<open>fig_result.get('reactions', [])\<close>; line 280: \<open>fig_result.get('page', fig_idx)\<close>.\<close>

definition entries_of :: "figure_result \<Rightarrow> raw_reaction list" where
  "entries_of fig = (case fig_reactions fig of None \<Rightarrow> [] | Some es \<Rightarrow> es)"

definition page_of :: "nat \<Rightarrow> figure_result \<Rightarrow> int" where
  "page_of fig_idx fig = (case fig_page fig of None \<Rightarrow> int fig_idx | Some p \<Rightarrow> p)"

text \<open>Lines 278-308, the outer loop; \<open>fig_idx\<close> is the counter of \<open>enumerate\<close>.\<close>

fun normalize_figures :: "nat \<Rightarrow> figure_result list \<Rightarrow> reaction list \<Rightarrow> reaction list" where
  "normalize_figures fig_idx [] acc = acc"
| "normalize_figures fig_idx (fig # figs) acc =
     normalize_figures (Suc fig_idx) figs
       (normalize_entries (page_of fig_idx fig) (entries_of fig) acc)"

definition normalize_results :: "figure_result list \<Rightarrow> reaction list" where
  "normalize_results figure_results = normalize_figures 0 figure_results []"

text \<open>
  The whole function: any exception of lines 254-274 is caught at line 313 and the
  result is the empty list.
\<close>

definition extract_reactions_with_openchemie :: "env \<Rightarrow> path \<Rightarrow> int \<Rightarrow> reaction list" where
  "extract_reactions_with_openchemie E pdf_path max_pages =
     (case openchemie E pdf_path max_pages of
        Inl e \<Rightarrow> []
      | Inr figure_results \<Rightarrow> normalize_results figure_results)"

section \<open>Image stage (generate\_reaction\_images, lines 319-367)\<close>

text \<open>\<open>str\<close> of an integer, for the f-strings of lines 345 and 350.\<close>

fun str_nat :: "nat \<Rightarrow> str" where
  "str_nat n = (if n < 10 then [48 + n] else str_nat (n div 10) @ [48 + n mod 10])"

declare str_nat.simps [simp del]

definition str_int :: "int \<Rightarrow> str" where
  "str_int i = (if i < 0 then 45 # str_nat (nat (- i)) else str_nat (nat i))"

definition reactant_path :: "path \<Rightarrow> reaction \<Rightarrow> path" where
  "reactant_path images_dir r =
     images_dir @ [U ''reaction_'' @ str_int (reaction_id r) @ U ''_reactant.png'']"

definition product_path :: "path \<Rightarrow> reaction \<Rightarrow> path" where
  "product_path images_dir r =
     images_dir @ [U ''reaction_'' @ str_int (reaction_id r) @ U ''_product.png'']"

text \<open>
  Lines 338-361, the body of the \<open>try\<close> for one record. The result is the exception or
  the updated record, together with the file system: a reactant image saved before a
  later call raises stays on disk. A molecule object is truthy, so line 342 tests that
  neither parse returned \<open>None\<close>.
\<close>

definition try_render ::
  "env \<Rightarrow> path \<Rightarrow> reaction \<Rightarrow> filesystem \<Rightarrow> (error + reaction) \<times> filesystem" where
  "try_render E images_dir r fs =
     (case MolFromSmiles E (reactant_smiles r) of
        Inl e \<Rightarrow> (Inl e, fs)
      | Inr reactant_mol \<Rightarrow>
     (case MolFromSmiles E (product_smiles r) of
        Inl e \<Rightarrow> (Inl e, fs)
      | Inr product_mol \<Rightarrow>
     (case (reactant_mol, product_mol) of
        (Some rm, Some pm) \<Rightarrow>
          (case MolToImage E rm of
             Inl e \<Rightarrow> (Inl e, fs)
           | Inr reactant_img \<Rightarrow>
          (case write_file fs (reactant_path images_dir r) of
             Inl e \<Rightarrow> (Inl e, fs)
           | Inr fs1 \<Rightarrow>
          (case MolToImage E pm of
             Inl e \<Rightarrow> (Inl e, fs1)
           | Inr product_img \<Rightarrow>
          (case write_file fs1 (product_path images_dir r) of
             Inl e \<Rightarrow> (Inl e, fs1)
           | Inr fs2 \<Rightarrow>
               (Inr (r\<lparr>reactant_image := Some (reactant_path images_dir r),
                        product_image := Some (product_path images_dir r),
                        images_generated := Some True\<rparr>), fs2)))))
      | _ \<Rightarrow> (Inr (r\<lparr>images_generated := Some False\<rparr>), fs))))"

text \<open>Lines 337-365: the \<open>try\<close> with its handler, which sets the flag to \<open>False\<close>.\<close>

definition render_one :: "env \<Rightarrow> path \<Rightarrow> reaction \<Rightarrow> filesystem \<Rightarrow> reaction \<times> filesystem" where
  "render_one E images_dir r fs =
     (case try_render E images_dir r fs of
        (Inl e, fs') \<Rightarrow> (r\<lparr>images_generated := Some False\<rparr>, fs')
      | (Inr r', fs') \<Rightarrow> (r', fs'))"

text \<open>Lines 334-367: the loop over the records, which are updated in place.\<close>

fun render_all :: "env \<Rightarrow> path \<Rightarrow> reaction list \<Rightarrow> filesystem \<Rightarrow> reaction list \<times> filesystem" where
  "render_all E images_dir [] fs = ([], fs)"
| "render_all E images_dir (r # rs) fs =
     (case render_one E images_dir r fs of
        (r', fs') \<Rightarrow>
          (case render_all E images_dir rs fs' of
             (rs', fs'') \<Rightarrow> (r' # rs', fs'')))"

text \<open>
  The whole function: without RDKit the input is returned as it is (lines 321-327);
  the \<open>mkdir\<close> of line 332 is outside every \<open>try\<close>.
\<close>

definition generate_reaction_images ::
  "env \<Rightarrow> filesystem \<Rightarrow> reaction list \<Rightarrow> path \<Rightarrow> error + reaction list \<times> filesystem" where
  "generate_reaction_images E fs reactions output_dir =
     (if \<not> rdkit_available E then Inr (reactions, fs)
      else case mkdir fs (output_dir @ [U ''reaction_images'']) of
        Inl e \<Rightarrow> Inl e
      | Inr fs1 \<Rightarrow> Inr (render_all E (output_dir @ [U ''reaction_images'']) reactions fs1))"

section \<open>Document assembler (create\_word\_document, lines 369-516)\<close>

text \<open>
  \<open>str.isspace\<close> of one code point, as \<open>str.strip()\<close> uses it: the ASCII controls
  9-13 and 28-31, the space, and the Unicode spaces and separators.
\<close>

definition isspace :: "nat \<Rightarrow> bool" where
  "isspace c =
     ((9 \<le> c \<and> c \<le> 13) \<or> (28 \<le> c \<and> c \<le> 32) \<or> c = 133 \<or> c = 160 \<or> c = 5760
      \<or> (8192 \<le> c \<and> c \<le> 8202) \<or> c = 8232 \<or> c = 8233 \<or> c = 8239 \<or> c = 8287
      \<or> c = 12288)"

definition strip :: "str \<Rightarrow> str" where
  "strip s = rev (dropWhile isspace (rev (dropWhile isspace s)))"

text \<open>\<open>s.split('\n')\<close>: the pieces between line feeds; never an empty list.\<close>

fun split_lines :: "str \<Rightarrow> str list" where
  "split_lines [] = [[]]"
| "split_lines (c # cs) =
     (if c = 10 then [] # split_lines cs
      else (case split_lines cs of
              l # ls \<Rightarrow> (c # l) # ls
            | [] \<Rightarrow> [[c]]))"

text \<open>The literal of line 413: two line feeds, three dots and the Chinese notice
  "(content too long, truncated)" in full-width parentheses.\<close>

definition truncation_marker :: str where
  "truncation_marker =
     [10, 10, 46, 46, 46, 65288, 20869, 23481, 36807, 38271, 65292, 24050, 25130, 26029,
      65289]"

text \<open>Lines 410-413.\<close>

definition truncate_text :: "str \<Rightarrow> str" where
  "truncate_text exp_text =
     (if length exp_text > 5000 then take 5000 exp_text @ truncation_marker else exp_text)"

text \<open>Lines 420-424: does the line start with a compound identifier or name one.\<close>

definition compound_start :: "str list \<Rightarrow> str \<Rightarrow> bool" where
  "compound_start cs line =
     list_ex (\<lambda>compound. startswith (strip line) compound
                \<or> contains (lower line) (U ''compound '' @ compound)) cs"

text \<open>
  python-docx hands the text of a paragraph or run to lxml, after turning tabs and line
  breaks into elements of their own. lxml accepts a string only if it is XML-compatible:
  no control character below 32 other than tab, line feed and carriage return, neither
  of the code points U+FFFE and U+FFFF, and no surrogate; otherwise it raises ValueError.
\<close>

definition xml_compatible :: "str \<Rightarrow> bool" where
  "xml_compatible s =
     list_all (\<lambda>c. (32 \<le> c \<or> c = 9 \<or> c = 10 \<or> c = 13)
                  \<and> c \<noteq> 65534 \<and> c \<noteq> 65535 \<and> \<not> (55296 \<le> c \<and> c \<le> 57343)) s"

text \<open>
  Whether \<open>doc.add_paragraph\<close> (with \<open>add_run\<close>) accepts a paragraph: the texts it is
  made from are XML-compatible. The fixed headings and placeholders are; the pictures of
  an image paragraph are inserted inside a \<open>try\<close> of their own.
\<close>

fun para_ok :: "para \<Rightarrow> bool" where
  "para_ok (Title_compounds cs etc) = list_all xml_compatible cs"
| "para_ok (Title_stem s) = xml_compatible s"
| "para_ok (Experimental_line line bold) = xml_compatible line"
| "para_ok (Prop prop) = xml_compatible prop"
| "para_ok (Smiles_preview r p) = (xml_compatible r \<and> xml_compatible p)"
| "para_ok (Meta nm pp tp n) = xml_compatible nm"
| "para_ok p = True"

text \<open>
  \<open>doc.add_paragraph\<close>: the paragraph is appended to the document, or ValueError is
  raised. None of the calls of lines 397-508 is inside a \<open>try\<close>, so the exception
  leaves the assembler and the paragraphs after it are never added.
\<close>

definition add_paragraph :: "para list \<Rightarrow> para \<Rightarrow> error + para list" where
  "add_paragraph doc p = (if para_ok p then Inr (doc @ [p]) else Inl ValueError)"

text \<open>Consecutive calls of \<open>add_paragraph\<close>, in their order.\<close>

fun add_paragraphs :: "para list \<Rightarrow> para list \<Rightarrow> error + para list" where
  "add_paragraphs doc [] = Inr doc"
| "add_paragraphs doc (p # ps) =
     (case add_paragraph doc p of
        Inl e \<Rightarrow> Inl e
      | Inr doc' \<Rightarrow> add_paragraphs doc' ps)"

text \<open>One step after another: the second runs on the document the first returns.\<close>

definition and_then :: "error + 'a \<Rightarrow> ('a \<Rightarrow> error + 'b) \<Rightarrow> error + 'b" where
  "and_then res f = (case res of Inl e \<Rightarrow> Inl e | Inr x \<Rightarrow> f x)"

text \<open>Lines 390-403: the title and an empty paragraph.\<close>

definition title_paragraphs :: "text_info \<Rightarrow> para list" where
  "title_paragraphs pdf_info =
     [if compounds pdf_info \<noteq> [] then
        Title_compounds (take 3 (compounds pdf_info)) (length (compounds pdf_info) > 3)
      else Title_stem (stem (source_pdf pdf_info)),
      Empty_paragraph]"

definition title_section :: "text_info \<Rightarrow> para list \<Rightarrow> error + para list" where
  "title_section pdf_info doc = add_paragraphs doc (title_paragraphs pdf_info)"

text \<open>
  Lines 416-432, the loop over the lines: a line that is not blank is added as one
  paragraph, in bold when it starts with a compound; the first line that python-docx
  does not accept raises, and the lines after it (the truncation marker among them)
  are never added.
\<close>

fun format_lines :: "str list \<Rightarrow> str list \<Rightarrow> para list \<Rightarrow> error + para list" where
  "format_lines cs [] doc = Inr doc"
| "format_lines cs (line # lines) doc =
     (if strip line \<noteq> [] then
        (case add_paragraph doc (Experimental_line line (compound_start cs line)) of
           Inl e \<Rightarrow> Inl e
         | Inr doc' \<Rightarrow> format_lines cs lines doc')
      else format_lines cs lines doc)"

text \<open>Lines 406-434, the source-language section.\<close>

definition source_section :: "text_info \<Rightarrow> language \<Rightarrow> para list \<Rightarrow> error + para list" where
  "source_section pdf_info lang doc =
     (if lang = en \<or> lang = both then
        (case add_paragraph doc Original_heading of
           Inl e \<Rightarrow> Inl e
         | Inr doc1 \<Rightarrow>
             if experimental_text pdf_info \<noteq> [] then
               format_lines (compounds pdf_info)
                 (split_lines (truncate_text (experimental_text pdf_info))) doc1
             else add_paragraph doc1 Not_extracted)
      else Inr doc)"

text \<open>Lines 437-441 and 444-447.\<close>

definition props_section :: "text_info \<Rightarrow> para list \<Rightarrow> error + para list" where
  "props_section pdf_info doc =
     (if physical_props pdf_info \<noteq> [] then
        add_paragraphs doc ([Empty_paragraph, Props_heading] @ map Prop (physical_props pdf_info))
      else Inr doc)"

definition target_section :: "language \<Rightarrow> para list \<Rightarrow> error + para list" where
  "target_section lang doc =
     (if lang = zh \<or> lang = both
      then add_paragraphs doc [Empty_paragraph, Chinese_heading, To_translate]
      else Inr doc)"

text \<open>
  Lines 473-489: the runs of the image paragraph. A run is added before its picture is
  inserted, so a failed \<open>add_picture\<close>, caught by the handler, leaves an empty run.
\<close>

definition image_runs :: "env \<Rightarrow> filesystem \<Rightarrow> reaction \<Rightarrow> item list list" where
  "image_runs E fs r =
     (case reactant_image r of
        None \<Rightarrow> []
      | Some p \<Rightarrow>
          if exists fs p
          then [case add_picture E p of Inl e \<Rightarrow> [] | Inr u \<Rightarrow> [Picture p, Arrow_text]]
          else [])
     @ (case product_image r of
        None \<Rightarrow> []
      | Some p \<Rightarrow>
          if exists fs p
          then [case add_picture E p of Inl e \<Rightarrow> [] | Inr u \<Rightarrow> [Picture p]]
          else [])"

text \<open>Lines 455-495, the paragraphs of one reaction.\<close>

definition reaction_paragraphs :: "env \<Rightarrow> filesystem \<Rightarrow> reaction \<Rightarrow> para list" where
  "reaction_paragraphs E fs r =
     [Reaction_header (reaction_id r) (page r),
      Smiles_preview (take 50 (reactant_smiles r)) (take 50 (product_smiles r)),
      if images_generated r = Some True then Image_paragraph (image_runs E fs r)
      else Image_missing,
      Empty_paragraph]"

text \<open>Lines 455-495, the loop over the reactions.\<close>

fun add_reactions ::
  "env \<Rightarrow> filesystem \<Rightarrow> reaction list \<Rightarrow> para list \<Rightarrow> error + para list" where
  "add_reactions E fs [] doc = Inr doc"
| "add_reactions E fs (r # rs) doc =
     (case add_paragraphs doc (reaction_paragraphs E fs r) of
        Inl e \<Rightarrow> Inl e
      | Inr doc' \<Rightarrow> add_reactions E fs rs doc')"

text \<open>Lines 450-495.\<close>

definition reaction_section ::
  "env \<Rightarrow> filesystem \<Rightarrow> reaction list \<Rightarrow> para list \<Rightarrow> error + para list" where
  "reaction_section E fs reactions doc =
     (if reactions \<noteq> [] then
        (case add_paragraphs doc [Empty_paragraph, Reactions_heading, Reactions_explanation] of
           Inl e \<Rightarrow> Inl e
         | Inr doc' \<Rightarrow> add_reactions E fs reactions doc')
      else Inr doc)"

text \<open>Lines 498-510.\<close>

definition closing_paragraphs :: "text_info \<Rightarrow> reaction list \<Rightarrow> para list" where
  "closing_paragraphs pdf_info reactions =
     [Empty_paragraph, Spectra_heading, To_complete, Empty_paragraph, Rule,
      Meta (name (source_pdf pdf_info)) (pages_processed pdf_info) (total_pages pdf_info)
        (length reactions)]"

definition closing_section ::
  "text_info \<Rightarrow> reaction list \<Rightarrow> para list \<Rightarrow> error + para list" where
  "closing_section pdf_info reactions doc = add_paragraphs doc (closing_paragraphs pdf_info reactions)"

text \<open>Lines 389-510: the sections in their order, each on the document so far.\<close>

definition document_body ::
  "env \<Rightarrow> filesystem \<Rightarrow> text_info \<Rightarrow> reaction list \<Rightarrow> language \<Rightarrow> para list
     \<Rightarrow> error + para list" where
  "document_body E fs pdf_info reactions lang doc =
     and_then
       (and_then
          (and_then
             (and_then
                (and_then (title_section pdf_info doc) (source_section pdf_info lang))
                (props_section pdf_info))
             (target_section lang))
          (reaction_section E fs reactions))
       (closing_section pdf_info reactions)"

text \<open>
  The whole function. It returns \<open>False\<close> where python-docx cannot be imported (lines
  373-379). Loading the template (line 385), adding the paragraphs and saving (line 513)
  are outside every \<open>try\<close>: their exception leaves the function, with nothing written.
  The result carries the value returned, the file system, and the document that was
  saved.
\<close>

definition create_word_document ::
  "env \<Rightarrow> filesystem \<Rightarrow> text_info \<Rightarrow> reaction list \<Rightarrow> path \<Rightarrow> language \<Rightarrow> path option
     \<Rightarrow> error + bool \<times> filesystem \<times> para list" where
  "create_word_document E fs pdf_info reactions output_path lang template_path =
     (if \<not> docx_available E then Inr (False, fs, [])
      else
        case (case template_path of
                None \<Rightarrow> Inr []
              | Some t \<Rightarrow> if exists fs t then Document E t else Inr []) of
          Inl e \<Rightarrow> Inl e
        | Inr doc0 \<Rightarrow>
            (case document_body E fs pdf_info reactions lang doc0 of
               Inl e \<Rightarrow> Inl e
             | Inr doc \<Rightarrow>
                 (case write_file fs output_path of
                    Inl e \<Rightarrow> Inl e
                  | Inr fs' \<Rightarrow> Inr (True, fs', doc))))"

section \<open>Per-file orchestrator (process\_pdf, lines 518-586)\<close>

subsection \<open>ProcessResult\<close>

text \<open>The entry \<open>result['text_info']\<close> of lines 539-543.\<close>

record text_counts =
  compounds_found :: nat
  experimental_text_length :: nat
  physical_props_count :: nat

text \<open>An entry of \<open>result['errors']\<close>: the fixed message of line 566 or \<open>str(e)\<close>.\<close>

datatype message = Document_not_created | Exception_message error

text \<open>
  The result dict of process\_pdf. The keys \<open>'text_info'\<close> and \<open>'images_generated'\<close> are
  the fields \<open>result_text_info\<close> and \<open>result_images_generated\<close>; a key not yet set is \<open>None\<close>.
\<close>

record process_result =
  pdf_file :: path
  output_dir :: path
  success :: bool
  errors :: "message list"
  result_text_info :: "text_counts option"
  reactions_extracted :: "nat option"
  result_images_generated :: "nat option"
  output_doc :: "path option"
  doc_size_kb :: "nat option"
  raw_data_file :: "path option"

subsection \<open>The stages\<close>

text \<open>The file name suffixes of lines 555 and 570.\<close>

definition route_docx :: str where
  "route_docx = [95, 21512, 25104, 36335, 32447] @ U ''.docx''"

definition raw_data_json :: str where
  "raw_data_json = U ''_raw_data.json''"

text \<open>
  Lines 537-578, the body of the \<open>try\<close>. The result is the exception that ended it, if
  any, with the result dict and the file system as they are at that point.
\<close>

definition process_stages ::
  "env \<Rightarrow> filesystem \<Rightarrow> path \<Rightarrow> path \<Rightarrow> args \<Rightarrow> config \<Rightarrow> process_result
     \<Rightarrow> error option \<times> process_result \<times> filesystem" where
  "process_stages E fs pdf_path pdf_output_dir a cfg result =
     (case extract_text_info E pdf_path (arg_max_pages a) of
        Inl e \<Rightarrow> (Some e, result, fs)
      | Inr text_info \<Rightarrow>
     (let result1 = result\<lparr>result_text_info :=
            Some \<lparr>compounds_found = length (compounds text_info),
                  experimental_text_length = length (experimental_text text_info),
                  physical_props_count = length (physical_props text_info)\<rparr>\<rparr>;
          reactions = extract_reactions_with_openchemie E pdf_path (arg_max_pages a);
          result2 = result1\<lparr>reactions_extracted := Some (length reactions)\<rparr>
      in
     (case (if reactions \<noteq> [] \<and> \<not> arg_no_images a
            then (case generate_reaction_images E fs reactions pdf_output_dir of
                    Inl e \<Rightarrow> Inl e
                  | Inr (rs, fs') \<Rightarrow>
                      Inr (rs, fs',
                           result2\<lparr>result_images_generated :=
                             Some (length (filter (\<lambda>r. images_generated r = Some True) rs))\<rparr>))
            else Inr (reactions, fs, result2)) of
        Inl e \<Rightarrow> (Some e, result2, fs)
      | Inr (reactions', fs2, result3) \<Rightarrow>
     (let output_doc_path = pdf_output_dir @ [stem pdf_path @ route_docx]
      in
     (case create_word_document E fs2 text_info reactions' output_doc_path (arg_language a)
             (arg_template a) of
        Inl e \<Rightarrow> (Some e, result3, fs2)
      | Inr (ok, fs3, doc) \<Rightarrow>
     (let result4 =
            (if ok
             then result3\<lparr>output_doc := Some output_doc_path, success := True,
                          doc_size_kb :=
                            (if exists fs3 output_doc_path
                             then Some (st_size E output_doc_path div 1024) else None)\<rparr>
             else result3\<lparr>errors := errors result3 @ [Document_not_created]\<rparr>)
      in
        if save_raw_data cfg then
          (let raw_data_path = pdf_output_dir @ [stem pdf_path @ raw_data_json]
           in case write_file fs3 raw_data_path of
                Inl e \<Rightarrow> (Some e, result4, fs3)
              | Inr fs4 \<Rightarrow>
                  (case json_dump E text_info reactions' of
                     Inl e \<Rightarrow> (Some e, result4, fs4)
                   | Inr u \<Rightarrow> (None, result4\<lparr>raw_data_file := Some raw_data_path\<rparr>, fs4)))
        else (None, result4, fs3)))))))"

text \<open>
  The whole function. The \<open>mkdir\<close> of line 527 stands before the \<open>try\<close> of line 536, so
  its exception leaves the function; an exception of the stages is appended to
  \<open>errors\<close> by the handler of lines 580-584.
\<close>

definition process_pdf ::
  "env \<Rightarrow> filesystem \<Rightarrow> path \<Rightarrow> path \<Rightarrow> args \<Rightarrow> config
     \<Rightarrow> error + process_result \<times> filesystem" where
  "process_pdf E fs pdf_path out_dir a cfg =
     (let pdf_output_dir = out_dir @ [stem pdf_path]
      in case mkdir fs pdf_output_dir of
           Inl e \<Rightarrow> Inl e
         | Inr fs1 \<Rightarrow>
             (case process_stages E fs1 pdf_path pdf_output_dir a cfg
                     \<lparr>pdf_file = pdf_path, output_dir = pdf_output_dir, success = False,
                      errors = [], result_text_info = None, reactions_extracted = None,
                      result_images_generated = None, output_doc = None, doc_size_kb = None,
                      raw_data_file = None\<rparr> of
                (None, result, fs') \<Rightarrow> Inr (result, fs')
              | (Some e, result, fs') \<Rightarrow>
                  Inr (result\<lparr>errors := errors result @ [Exception_message e]\<rparr>, fs')))"

section \<open>Batch orchestrator (main, lines 588-659)\<close>

text \<open>The file name of line 636.\<close>

definition report_json :: str where
  "report_json = U ''processing_report.json''"

text \<open>Lines 105-112: a config file that cannot be read gives the empty config, in which
  \<open>config.get('save_raw_data', False)\<close> is \<open>False\<close>.\<close>

definition load_config :: "env \<Rightarrow> path \<Rightarrow> config" where
  "load_config E config_path =
     (case load_json E config_path of
        Inl e \<Rightarrow> \<lparr>save_raw_data = False\<rparr>
      | Inr c \<Rightarrow> c)"

text \<open>Lines 619-622: the loop has no handler, an exception of process\_pdf ends it.\<close>

fun process_all ::
  "env \<Rightarrow> filesystem \<Rightarrow> path list \<Rightarrow> path \<Rightarrow> args \<Rightarrow> config
     \<Rightarrow> error + process_result list \<times> filesystem" where
  "process_all E fs [] out_dir a cfg = Inr ([], fs)"
| "process_all E fs (file # rest) out_dir a cfg =
     (case process_pdf E fs file out_dir a cfg of
        Inl e \<Rightarrow> Inl e
      | Inr (result, fs') \<Rightarrow>
          (case process_all E fs' rest out_dir a cfg of
             Inl e \<Rightarrow> Inl e
           | Inr (results, fs'') \<Rightarrow> Inr (result # results, fs'')))"

text \<open>
  The whole function, from the parsed arguments on: the status returned, the per-file
  results and the file system; \<open>Inl\<close> where an exception ends the run.
\<close>

definition main ::
  "env \<Rightarrow> filesystem \<Rightarrow> args \<Rightarrow> error + int \<times> process_result list \<times> filesystem" where
  "main E fs a =
     (let cfg = (case arg_config a of
                   None \<Rightarrow> \<lparr>save_raw_data = False\<rparr>
                 | Some p \<Rightarrow> load_config E p)
      in case mkdir_parents fs (arg_output a) of
           Inl e \<Rightarrow> Inl e
         | Inr fs1 \<Rightarrow>
             (let pdf_files = find_pdf_files fs1 (arg_input a) (arg_include_si a)
              in if pdf_files = [] then Inr (1, [], fs1)
                 else
                   (case process_all E fs1 pdf_files (arg_output a) a cfg of
                      Inl e \<Rightarrow> Inl e
                    | Inr (results, fs2) \<Rightarrow>
                        (case write_file fs2 (arg_output a @ [report_json]) of
                           Inl e \<Rightarrow> Inl e
                         | Inr fs3 \<Rightarrow>
                             Inr (if length (filter success results) > 0 then 0 else 1,
                                  results, fs3)))))"

section \<open>Vocabulary of the properties\<close>

subsection \<open>Reaction normalizer\<close>





definition ex_entry_full :: raw_reaction where
  "ex_entry_full =
     \<lparr>reactants = Some [\<lparr>smiles = None\<rparr>, \<lparr>smiles = Some (U ''CCO'')\<rparr>],
      products = Some [\<lparr>smiles = Some []\<rparr>, \<lparr>smiles = Some (U ''CC=O'')\<rparr>]\<rparr>"

definition ex_entry_partial :: raw_reaction where
  "ex_entry_partial =
     \<lparr>reactants = Some [\<lparr>smiles = Some (U ''CCO'')\<rparr>], products = Some [\<lparr>smiles = None\<rparr>]\<rparr>"

subsection \<open>Example collaborators\<close>

text \<open>
  An environment in which every collaborator is available: the PDF has two pages of
  text, the identifier set is \<open>{"12", "A1", "3"}\<close>, the model finds one figure with a
  complete and a partial entry, every structure identifier but \<open>"??"\<close> parses, every
  molecule but that of \<open>"[Xx]"\<close> can be drawn. Of the Unicode table, the example holds
  the full-width digits and the Arabic-Indic digits.
\<close>

definition ex_env :: env where
  "ex_env =
     \<lparr>pdfplumber_available = True,
      pdf_open = (\<lambda>p. Inr [Inr (Some (U ''Experimental'')), Inr None, Inr (Some (U ''x''))]),
      unicode_numeric = (\<lambda>c. (65296 \<le> c \<and> c \<le> 65305) \<or> (1632 \<le> c \<and> c \<le> 1641)),
      re_experimental = (\<lambda>t. U ''compound 12 was prepared''),
      re_compounds = (\<lambda>t. [U ''12'', U ''A1'', U ''3'']),
      re_phys_props = (\<lambda>t. []),
      re_description = (\<lambda>c t. None),
      openchemie = (\<lambda>p n.
        Inr [\<lparr>fig_reactions = Some [ex_entry_full, ex_entry_partial], fig_page = Some 0\<rparr>]),
      rdkit_available = True,
      MolFromSmiles = (\<lambda>s. Inr (if s = U ''??'' then None else Some (Mol s))),
      MolToImage = (\<lambda>m. if m = Mol (U ''[Xx]'') then Inl (Failure (U ''cannot draw''))
                         else Inr (Image m)),
      docx_available = True,
      Document = (\<lambda>p. Inr []),
      add_picture = (\<lambda>p. Inr ()),
      st_size = (\<lambda>p. 40000),
      load_json = (\<lambda>p. Inr \<lparr>save_raw_data = False\<rparr>),
      json_dump = (\<lambda>t rs. Inr ())\<rparr>"

definition ex_pdf :: path where
  "ex_pdf = [U ''pdfs'', U ''paper.pdf'']"

text \<open>The pages of the example PDF and the corpus read from them.\<close>

definition ex_pages :: "(error + str option) list" where
  "ex_pages = [Inr (Some (U ''Experimental'')), Inr None, Inr (Some (U ''x''))]"

definition ex_text :: str where
  "ex_text = U ''Experimental'' @ [10, 10] @ U ''x'' @ [10, 10]"

subsection \<open>Input enumeration\<close>

text \<open>A name that ends in \<open>.pdf\<close>, whatever the case of its letters.\<close>

definition ends_in_pdf :: "str \<Rightarrow> bool" where
  "ends_in_pdf nm = (4 \<le> length nm \<and> lower (drop (length nm - 4) nm) = U ''.pdf'')"

definition ex_fs :: filesystem where
  "ex_fs =
     [([U ''pdfs''], Dir),
      ([U ''pdfs'', U ''paper.pdf''], File),
      ([U ''pdfs'', U ''paper_SI.PDF''], File),
      ([U ''pdfs'', U ''paper_SI.pdf''], File),
      ([U ''pdfs'', U ''sub''], Dir),
      ([U ''pdfs'', U ''sub'', U ''other.pdf''], File),
      ([U ''pdfs'', U ''notes.txt''], File),
      ([U ''.pdf''], File)]"

subsection \<open>Image stage\<close>

text \<open>A structure identifier parses when RDKit returns a molecule for it; it is drawn
  when RDKit also returns an image of that molecule.\<close>

definition parses :: "env \<Rightarrow> str \<Rightarrow> bool" where
  "parses E s = (case MolFromSmiles E s of Inr (Some m) \<Rightarrow> True | _ \<Rightarrow> False)"

definition renderable :: "env \<Rightarrow> reaction \<Rightarrow> bool" where
  "renderable E r = (parses E (reactant_smiles r) \<and> parses E (product_smiles r))"

definition drawn :: "env \<Rightarrow> str \<Rightarrow> bool" where
  "drawn E s =
     (case MolFromSmiles E s of
        Inr (Some m) \<Rightarrow> (case MolToImage E m of Inl e \<Rightarrow> False | Inr i \<Rightarrow> True)
      | _ \<Rightarrow> False)"

text \<open>
  What decides the flag of one record, in the file system the loop starts from: both
  identifiers are parsed and drawn, and both image files can be written into the image
  directory (no directory stands in their place).
\<close>

definition succeeds :: "env \<Rightarrow> filesystem \<Rightarrow> path \<Rightarrow> reaction \<Rightarrow> bool" where
  "succeeds E fs images_dir r =
     (drawn E (reactant_smiles r) \<and> drawn E (product_smiles r) \<and> is_dir fs images_dir
      \<and> \<not> is_dir fs (reactant_path images_dir r) \<and> \<not> is_dir fs (product_path images_dir r))"

text \<open>The output record the specification expects for an input record.\<close>

definition expected :: "env \<Rightarrow> filesystem \<Rightarrow> path \<Rightarrow> reaction \<Rightarrow> reaction" where
  "expected E fs images_dir r =
     (if succeeds E fs images_dir r
      then r\<lparr>reactant_image := Some (reactant_path images_dir r),
             product_image := Some (product_path images_dir r),
             images_generated := Some True\<rparr>
      else r\<lparr>images_generated := Some False\<rparr>)"

text \<open>An output record against its input record, in the file system the stage leaves.\<close>

definition rendered :: "env \<Rightarrow> filesystem \<Rightarrow> path \<Rightarrow> reaction \<Rightarrow> reaction \<Rightarrow> bool" where
  "rendered E fs' images_dir r r' =
     (r' = r\<lparr>images_generated := Some False\<rparr>
      \<or> (r' = r\<lparr>reactant_image := Some (reactant_path images_dir r),
                product_image := Some (product_path images_dir r),
                images_generated := Some True\<rparr>
         \<and> renderable E r
         \<and> is_file fs' (reactant_path images_dir r)
         \<and> is_file fs' (product_path images_dir r)))"

definition ex_reaction :: "int \<Rightarrow> str \<Rightarrow> reaction" where
  "ex_reaction n s =
     \<lparr>reaction_id = n, page = 1, reactant_smiles = s, product_smiles = U ''CC=O'',
      raw_data = ex_entry_full, reactant_image = None, product_image = None,
      images_generated = None\<rparr>"

definition ex_images_dir :: path where
  "ex_images_dir = [U ''out'', U ''reaction_images'']"

definition ex_out_fs :: filesystem where
  "ex_out_fs = [([U ''out''], Dir), ([U ''out'', U ''reaction_images''], Dir)]"

text \<open>A record that renders, one that does not parse, another that renders and one that
  parses but cannot be drawn.\<close>

definition ex_first :: reaction where "ex_first = ex_reaction 1 (U ''CCO'')"
definition ex_unparsable :: reaction where "ex_unparsable = ex_reaction 2 (U ''??'')"
definition ex_third :: reaction where "ex_third = ex_reaction 3 (U ''C'')"
definition ex_undrawable :: reaction where "ex_undrawable = ex_reaction 3 (U ''[Xx]'')"

definition ex_records :: "reaction list" where
  "ex_records = [ex_first, ex_unparsable, ex_third]"

definition ex_undrawable_records :: "reaction list" where
  "ex_undrawable_records = [ex_first, ex_unparsable, ex_undrawable]"

text \<open>An output directory in which \<open>reaction_images\<close> is a regular file.\<close>

definition ex_images_blocked_fs :: filesystem where
  "ex_images_blocked_fs = [([U ''out''], Dir), ([U ''out'', U ''reaction_images''], File)]"

subsection \<open>Document assembler\<close>

text \<open>
  The paragraphs the specification expects of the experimental text: one for every line
  that is not blank, in the order of the lines.
\<close>

definition line_paragraphs :: "str list \<Rightarrow> str \<Rightarrow> para list" where
  "line_paragraphs cs exp_text =
     map (\<lambda>line. Experimental_line line (compound_start cs line))
       (filter (\<lambda>line. strip line \<noteq> []) (split_lines exp_text))"

text \<open>The paragraphs of the source-language, properties, target-language and reaction
  sections, and of the whole body.\<close>

definition source_paragraphs :: "text_info \<Rightarrow> language \<Rightarrow> para list" where
  "source_paragraphs pdf_info lang =
     (if lang = en \<or> lang = both then
        Original_heading #
        (if experimental_text pdf_info \<noteq> [] then
           line_paragraphs (compounds pdf_info) (truncate_text (experimental_text pdf_info))
         else [Not_extracted])
      else [])"

definition props_paragraphs :: "text_info \<Rightarrow> para list" where
  "props_paragraphs pdf_info =
     (if physical_props pdf_info \<noteq> [] then
        [Empty_paragraph, Props_heading] @ map Prop (physical_props pdf_info)
      else [])"

definition target_paragraphs :: "language \<Rightarrow> para list" where
  "target_paragraphs lang =
     (if lang = zh \<or> lang = both then [Empty_paragraph, Chinese_heading, To_translate]
      else [])"

definition reactions_paragraphs :: "env \<Rightarrow> filesystem \<Rightarrow> reaction list \<Rightarrow> para list" where
  "reactions_paragraphs E fs reactions =
     (if reactions \<noteq> [] then
        [Empty_paragraph, Reactions_heading, Reactions_explanation]
        @ concat (map (reaction_paragraphs E fs) reactions)
      else [])"

definition body_paragraphs ::
  "env \<Rightarrow> filesystem \<Rightarrow> text_info \<Rightarrow> reaction list \<Rightarrow> language \<Rightarrow> para list" where
  "body_paragraphs E fs pdf_info reactions lang =
     title_paragraphs pdf_info @ source_paragraphs pdf_info lang @ props_paragraphs pdf_info
     @ target_paragraphs lang @ reactions_paragraphs E fs reactions
     @ closing_paragraphs pdf_info reactions"


text \<open>The exception of loading the template, where one is given, exists and does not
  load; and the paragraphs the document starts from.\<close>

definition template_error :: "env \<Rightarrow> filesystem \<Rightarrow> path option \<Rightarrow> error option" where
  "template_error E fs template_path =
     (case template_path of
        None \<Rightarrow> None
      | Some t \<Rightarrow> if exists fs t then (case Document E t of Inl e \<Rightarrow> Some e | Inr d \<Rightarrow> None)
                  else None)"

definition template_loads :: "env \<Rightarrow> filesystem \<Rightarrow> path option \<Rightarrow> bool" where
  "template_loads E fs template_path = (template_error E fs template_path = None)"

definition template_content :: "env \<Rightarrow> filesystem \<Rightarrow> path option \<Rightarrow> para list" where
  "template_content E fs template_path =
     (case template_path of
        None \<Rightarrow> []
      | Some t \<Rightarrow> if exists fs t then (case Document E t of Inl e \<Rightarrow> [] | Inr d \<Rightarrow> d)
                  else [])"

definition ex_info :: text_info where
  "ex_info =
     \<lparr>experimental_text = U ''compound 12 was prepared'',
      compounds = [U ''A1'', U ''12'', U ''3''], physical_props = [],
      compound_descriptions = [], total_pages = 3, pages_processed = 3,
      source_pdf = ex_pdf, error = None\<rparr>"

text \<open>
  Three experimental texts of 6000 characters: 6000 letters \<open>a\<close>; 6000 spaces; and the
  line \<open>a\<close> followed by a form feed (code point 12), a line feed, and 5997 letters \<open>b\<close>.
\<close>

definition ex_long_text :: str where
  "ex_long_text = replicate 6000 97"

definition ex_blank_text :: str where
  "ex_blank_text = replicate 6000 32"

definition ex_form_feed_text :: str where
  "ex_form_feed_text = [97, 12] @ 10 # replicate 5997 98"

definition ex_text_info :: "str \<Rightarrow> text_info" where
  "ex_text_info t =
     \<lparr>experimental_text = t, compounds = [], physical_props = [],
      compound_descriptions = [], total_pages = 3, pages_processed = 3,
      source_pdf = ex_pdf, error = None\<rparr>"

definition ex_doc_path :: path where
  "ex_doc_path = [U ''out'', U ''paper.docx'']"

definition ex_marker_line :: para where
  "ex_marker_line = Experimental_line (drop 2 truncation_marker) False"

text \<open>The document saved for the text of 6000 letters, language \<open>en\<close>, no reactions.\<close>

definition ex_long_doc :: "para list" where
  "ex_long_doc =
     [Title_stem (U ''paper''), Empty_paragraph, Original_heading,
      Experimental_line (replicate 5000 97) False, ex_marker_line,
      Empty_paragraph, Spectra_heading, To_complete, Empty_paragraph, Rule,
      Meta (U ''paper.pdf'') 3 3 0]"






subsection \<open>Orchestrators\<close>

definition ex_args :: args where
  "ex_args =
     \<lparr>arg_input = [U ''pdfs''], arg_output = [U ''out''], arg_max_pages = 5,
      arg_no_images = False, arg_include_si = False, arg_language = both,
      arg_template = None, arg_config = None, arg_debug = False\<rparr>"

text \<open>The example directory with a regular file \<open>out/paper\<close> where the output
  directory of \<open>pdfs/paper.pdf\<close> is to be created.\<close>

definition ex_blocked_fs :: filesystem where
  "ex_blocked_fs = ex_fs @ [([U ''out''], Dir), ([U ''out'', U ''paper''], File)]"

definition ex_files :: "path list" where
  "ex_files = [[U ''pdfs'', U ''paper.pdf''], [U ''pdfs'', U ''sub'', U ''other.pdf'']]"
















section \<open>Properties\<close>

subsection \<open>Reaction normalizer\<close>


















subsection \<open>Text-mining extractor\<close>

lemma sorted_key_split:
  "sorted (map (compound_key N) xs) \<Longrightarrow>
     xs = filter (\<lambda>x. \<not> isnumeric N x) xs @ filter (isnumeric N) xs
     \<and> sorted (filter (\<lambda>x. \<not> isnumeric N x) xs) \<and> sorted (filter (isnumeric N) xs)"
proof (induction xs)
  case Nil
  then show ?case by simp
next
  case (Cons x xs)
  then have le: "\<forall>y\<in>set xs. compound_key N x \<le> compound_key N y"
    and s: "sorted (map (compound_key N) xs)"
    by auto
  note ih = Cons.IH [OF s]
  show ?case
  proof (cases "isnumeric N x")
    case True
    with le have all: "\<forall>y\<in>set xs. isnumeric N y \<and> x \<le> y"
      by (auto simp: compound_key_def)
    then have "filter (\<lambda>x. \<not> isnumeric N x) xs = []" "filter (isnumeric N) xs = xs"
      by (auto simp: filter_empty_conv filter_id_conv)
    with True ih all show ?thesis by auto
  next
    case False
    with le have "\<forall>y\<in>set xs. \<not> isnumeric N y \<longrightarrow> x \<le> y"
      by (auto simp: compound_key_def)
    with False ih show ?thesis by auto
  qed
qed

lemma sorted_compounds_unique:
  assumes "distinct xs" "distinct ys" "set xs = set ys"
  shows "sorted_compounds N xs = sorted_compounds N ys"
proof -
  have inj: "inj (compound_key N)" by (auto simp: inj_def compound_key_def)
  let ?a = "map (compound_key N) (sorted_compounds N xs)"
  let ?b = "map (compound_key N) (sorted_compounds N ys)"
  have sa: "sorted ?a" and sb: "sorted ?b" by (simp_all add: sorted_compounds_def)
  have da: "distinct ?a" and db: "distinct ?b"
    using assms inj by (simp_all add: sorted_compounds_def distinct_map inj_on_def inj_def)
  have st: "set ?a = set ?b" using assms by (simp add: sorted_compounds_def)
  have "?a = ?b" by (rule sorted_distinct_set_unique [OF sa da sb db st])
  then show ?thesis using inj by (simp add: inj_map_eq_map)
qed

lemma sorted_compounds_example:
  "sorted_compounds N [U ''12'', U ''A1'', U ''3''] = [U ''A1'', U ''12'', U ''3'']"
  by (simp add: sorted_compounds_def compound_key_def isnumeric_def)

lemma extract_text_info_compounds:
  assumes "extract_text_info E pdf_path max_pages = Inr info"
  shows "sorted (map (compound_key (unicode_numeric E)) (compounds info))"
  using assms
  by (auto simp: extract_text_info_def default_info_def Let_def sorted_compounds_def
           split: if_splits sum.splits)

lemma extract_text_info_success:
  assumes "pdfplumber_available E" "pdf_open E pdf_path = Inr pages"
    and "read_pages (take (nat (min max_pages (int (length pages)))) pages) [] = Inr all_text"
  shows "\<exists>info. extract_text_info E pdf_path max_pages = Inr info
           \<and> error info = None
           \<and> compounds info
               = sorted_compounds (unicode_numeric E) (remdups (re_compounds E all_text))"
  using assms by (simp add: extract_text_info_def Let_def)

text \<open>
  C2, as the code has it. Where the pages are read, the compounds list of the record is
  the identifier set (each identifier once) sorted by the key \<open>(isnumeric, identifier)\<close>,
  and \<open>False < True\<close>: the non-numeric identifiers in code-point order followed by the
  purely numeric ones in code-point order. This shape holds of every record the
  extractor returns (the default record has no compounds). The sorted list depends on
  the set only, not on its iteration order; for the set \<open>{"12", "A1", "3"}\<close> it is
  \<open>["A1", "12", "3"]\<close>.
\<close>

theorem compounds_alphabetic_before_numeric:
  "(pdfplumber_available E \<and> pdf_open E pdf_path = Inr pages
      \<and> read_pages (take (nat (min max_pages (int (length pages)))) pages) [] = Inr all_text \<longrightarrow>
      (\<exists>info. extract_text_info E pdf_path max_pages = Inr info
         \<and> compounds info
             = sorted_compounds (unicode_numeric E) (remdups (re_compounds E all_text))
         \<and> set (compounds info) = set (re_compounds E all_text)
         \<and> distinct (compounds info)))
   \<and> (extract_text_info E pdf_path max_pages = Inr info \<longrightarrow>
      compounds info =
        filter (\<lambda>x. \<not> isnumeric (unicode_numeric E) x) (compounds info)
        @ filter (isnumeric (unicode_numeric E)) (compounds info)
      \<and> sorted (filter (\<lambda>x. \<not> isnumeric (unicode_numeric E) x) (compounds info))
      \<and> sorted (filter (isnumeric (unicode_numeric E)) (compounds info)))
   \<and> set (sorted_compounds N cs) = set cs
   \<and> length (sorted_compounds N cs) = length cs
   \<and> (distinct xs \<and> distinct ys \<and> set xs = set ys \<longrightarrow>
        sorted_compounds N xs = sorted_compounds N ys)
   \<and> (distinct ids \<and> set ids = {U ''12'', U ''A1'', U ''3''} \<longrightarrow>
        sorted_compounds N ids = [U ''A1'', U ''12'', U ''3''])"
proof (intro conjI impI)
  assume "pdfplumber_available E \<and> pdf_open E pdf_path = Inr pages
      \<and> read_pages (take (nat (min max_pages (int (length pages)))) pages) [] = Inr all_text"
  then obtain i where i: "extract_text_info E pdf_path max_pages = Inr i"
    "compounds i = sorted_compounds (unicode_numeric E) (remdups (re_compounds E all_text))"
    using extract_text_info_success by blast
  then have "set (compounds i) = set (re_compounds E all_text)" "distinct (compounds i)"
    by (simp_all add: sorted_compounds_def)
  with i show "\<exists>info. extract_text_info E pdf_path max_pages = Inr info
         \<and> compounds info
             = sorted_compounds (unicode_numeric E) (remdups (re_compounds E all_text))
         \<and> set (compounds info) = set (re_compounds E all_text)
         \<and> distinct (compounds info)"
    by blast
next
  assume "extract_text_info E pdf_path max_pages = Inr info"
  then have "sorted (map (compound_key (unicode_numeric E)) (compounds info))"
    by (rule extract_text_info_compounds)
  from sorted_key_split [OF this]
  show "compounds info =
        filter (\<lambda>x. \<not> isnumeric (unicode_numeric E) x) (compounds info)
        @ filter (isnumeric (unicode_numeric E)) (compounds info)"
    and "sorted (filter (\<lambda>x. \<not> isnumeric (unicode_numeric E) x) (compounds info))"
    and "sorted (filter (isnumeric (unicode_numeric E)) (compounds info))"
    by blast+
next
  show "set (sorted_compounds N cs) = set cs" by (simp add: sorted_compounds_def)
  show "length (sorted_compounds N cs) = length cs" by (simp add: sorted_compounds_def)
next
  assume "distinct xs \<and> distinct ys \<and> set xs = set ys"
  then show "sorted_compounds N xs = sorted_compounds N ys"
    by (simp add: sorted_compounds_unique)
next
  assume h: "distinct ids \<and> set ids = {U ''12'', U ''A1'', U ''3''}"
  have "sorted_compounds N ids = sorted_compounds N [U ''12'', U ''A1'', U ''3'']"
    by (rule sorted_compounds_unique) (use h in simp_all)
  then show "sorted_compounds N ids = [U ''A1'', U ''12'', U ''3'']"
    by (simp only: sorted_compounds_example)
qed

lemma ex_extract:
  "extract_text_info ex_env ex_pdf 5 =
     Inr \<lparr>experimental_text = U ''compound 12 was prepared'',
          compounds = [U ''A1'', U ''12'', U ''3''], physical_props = [],
          compound_descriptions = [], total_pages = 3, pages_processed = 3,
          source_pdf = ex_pdf, error = None\<rparr>"
  by (simp add: extract_text_info_def ex_env_def describe_def List.map_filter_def
        sorted_compounds_def compound_key_def isnumeric_def)

theorem compounds_alphabetic_before_numeric_witness:
  "pdfplumber_available ex_env
   \<and> pdf_open ex_env ex_pdf = Inr ex_pages
   \<and> read_pages (take (nat (min 5 (int (length ex_pages)))) ex_pages) [] = Inr ex_text
   \<and> extract_text_info ex_env ex_pdf 5 =
     Inr \<lparr>experimental_text = U ''compound 12 was prepared'',
          compounds = [U ''A1'', U ''12'', U ''3''], physical_props = [],
          compound_descriptions = [], total_pages = 3, pages_processed = 3,
          source_pdf = ex_pdf, error = None\<rparr>
   \<and> set [U ''A1'', U ''12'', U ''3''] = set (re_compounds ex_env ex_text)
   \<and> [U ''A1'', U ''12'', U ''3''] = [U ''A1''] @ [U ''12'', U ''3'']
   \<and> sorted [U ''A1''] \<and> sorted [U ''12'', U ''3'']
   \<and> distinct [U ''3'', U ''A1'', U ''12'']
   \<and> sorted_compounds (unicode_numeric ex_env) [U ''3'', U ''A1'', U ''12'']
       = [U ''A1'', U ''12'', U ''3'']
   \<and> sorted_compounds (unicode_numeric ex_env) [[65299], U ''12'', U ''B'']
       = [U ''B'', U ''12'', [65299]]"
proof -
  let ?info = "\<lparr>experimental_text = U ''compound 12 was prepared'',
          compounds = [U ''A1'', U ''12'', U ''3''], physical_props = [],
          compound_descriptions = [], total_pages = 3, pages_processed = 3,
          source_pdf = ex_pdf, error = None\<rparr>"
  have a: "pdfplumber_available ex_env \<and> pdf_open ex_env ex_pdf = Inr ex_pages
           \<and> read_pages (take (nat (min 5 (int (length ex_pages)))) ex_pages) [] = Inr ex_text"
    by (simp add: ex_env_def ex_pages_def ex_text_def)
  have d: "distinct [U ''3'', U ''A1'', U ''12'']
           \<and> set [U ''3'', U ''A1'', U ''12''] = {U ''12'', U ''A1'', U ''3''}"
    by auto
  have f: "sorted_compounds (unicode_numeric ex_env) [[65299], U ''12'', U ''B'']
             = [U ''B'', U ''12'', [65299]]"
    by (simp add: sorted_compounds_def compound_key_def isnumeric_def ex_env_def)
  from a compounds_alphabetic_before_numeric [of ex_env ex_pdf ex_pages 5 ex_text]
  obtain i where i: "extract_text_info ex_env ex_pdf 5 = Inr i"
    "set (compounds i) = set (re_compounds ex_env ex_text)"
    by blast
  with ex_extract have "i = ?info" by simp
  with i have s: "set [U ''A1'', U ''12'', U ''3''] = set (re_compounds ex_env ex_text)"
    by simp
  from ex_extract compounds_alphabetic_before_numeric [of ex_env ex_pdf _ 5 _ ?info]
  have p: "[U ''A1'', U ''12'', U ''3'']
      = filter (\<lambda>x. \<not> isnumeric (unicode_numeric ex_env) x) [U ''A1'', U ''12'', U ''3'']
        @ filter (isnumeric (unicode_numeric ex_env)) [U ''A1'', U ''12'', U ''3'']
      \<and> sorted (filter (\<lambda>x. \<not> isnumeric (unicode_numeric ex_env) x) [U ''A1'', U ''12'', U ''3''])
      \<and> sorted (filter (isnumeric (unicode_numeric ex_env)) [U ''A1'', U ''12'', U ''3''])"
    by simp
  have n: "\<not> isnumeric (unicode_numeric ex_env) (U ''A1'')"
    "isnumeric (unicode_numeric ex_env) (U ''12'')" "isnumeric (unicode_numeric ex_env) (U ''3'')"
    by (simp_all add: isnumeric_def)
  from d compounds_alphabetic_before_numeric
         [of _ _ _ _ _ _ "unicode_numeric ex_env" _ _ _ "[U ''3'', U ''A1'', U ''12'']"]
  have e: "sorted_compounds (unicode_numeric ex_env) [U ''3'', U ''A1'', U ''12'']
             = [U ''A1'', U ''12'', U ''3'']"
    by blast
  have q: "[U ''A1'', U ''12'', U ''3''] = [U ''A1''] @ [U ''12'', U ''3'']
        \<and> sorted [U ''A1''] \<and> sorted [U ''12'', U ''3'']"
    using p n by simp
  from a ex_extract s q d e f show ?thesis
    by (elim conjE, intro conjI) assumption+
qed

theorem compounds_numeric_first_counterexample:
  "(case extract_text_info ex_env ex_pdf 5 of Inl e \<Rightarrow> [] | Inr info \<Rightarrow> compounds info)
     = [U ''A1'', U ''12'', U ''3'']
   \<and> (case extract_text_info ex_env ex_pdf 5 of Inl e \<Rightarrow> [] | Inr info \<Rightarrow> compounds info)
     \<noteq> [U ''3'', U ''12'', U ''A1'']"
  by (simp add: extract_text_info_def ex_env_def describe_def List.map_filter_def
        sorted_compounds_def compound_key_def isnumeric_def)

lemma extract_text_info_guarded:
  assumes "pdfplumber_available E"
  shows "\<exists>info. extract_text_info E pdf_path max_pages = Inr info
           \<and> (error info \<noteq> None \<longrightarrow>
                experimental_text info = [] \<and> compounds info = []
                \<and> physical_props info = [] \<and> compound_descriptions info = []
                \<and> total_pages info = 0 \<and> pages_processed info = 0)"
  using assms
  by (auto simp: extract_text_info_def default_info_def Let_def split: sum.splits)

text \<open>
  C4, at the failing input. Where \<open>import pdfplumber\<close> fails, the extractor raises that
  ImportError instead of returning the default record: the import of line 137 stands
  before the \<open>try\<close> of line 142.
\<close>

theorem extract_text_info_raises_import_error:
  "extract_text_info (ex_env\<lparr>pdfplumber_available := False\<rparr>) ex_pdf 5
     = Inl (ImportError (U ''pdfplumber''))"
  by (simp add: extract_text_info_def ex_env_def)

text \<open>
  C9, as the code has it. Every record the extractor returns has
  \<open>pages_processed \<le> total_pages\<close>. \<open>pages_processed\<close> is at most the page budget on every
  record without \<open>error\<close>, and on the default record of a failure when the budget is not
  negative (the default record has \<open>pages_processed = 0\<close>).
\<close>

theorem pages_processed_bounded:
  "extract_text_info E pdf_path max_pages = Inr info \<longrightarrow>
     pages_processed info \<le> total_pages info
     \<and> (error info = None \<longrightarrow> pages_processed info \<le> max_pages)
     \<and> (0 \<le> max_pages \<longrightarrow> pages_processed info \<le> max_pages)"
  by (auto simp: extract_text_info_def default_info_def Let_def
           split: if_splits sum.splits)

theorem pages_processed_bounded_witness:
  "extract_text_info ex_env ex_pdf 2
     = Inr \<lparr>experimental_text = U ''compound 12 was prepared'',
            compounds = [U ''A1'', U ''12'', U ''3''], physical_props = [],
            compound_descriptions = [], total_pages = 3, pages_processed = 2,
            source_pdf = ex_pdf, error = None\<rparr>
   \<and> (2::int) \<le> 3 \<and> (0::int) \<le> 2"
proof -
  have e: "extract_text_info ex_env ex_pdf 2
     = Inr \<lparr>experimental_text = U ''compound 12 was prepared'',
            compounds = [U ''A1'', U ''12'', U ''3''], physical_props = [],
            compound_descriptions = [], total_pages = 3, pages_processed = 2,
            source_pdf = ex_pdf, error = None\<rparr>"
    by (simp add: extract_text_info_def ex_env_def describe_def List.map_filter_def
          sorted_compounds_def compound_key_def isnumeric_def)
  show ?thesis
    using e pages_processed_bounded
        [of ex_env ex_pdf 2
            "\<lparr>experimental_text = U ''compound 12 was prepared'',
              compounds = [U ''A1'', U ''12'', U ''3''], physical_props = [],
              compound_descriptions = [], total_pages = 3, pages_processed = 2,
              source_pdf = ex_pdf, error = None\<rparr>"]
    by simp
qed

theorem pages_processed_budget_counterexample:
  "extract_text_info (ex_env\<lparr>pdf_open := (\<lambda>p. Inl (Failure (U ''not a PDF'')))\<rparr>) ex_pdf (- 1)
     = Inr (default_info ex_pdf (Failure (U ''not a PDF'')))
   \<and> \<not> pages_processed (default_info ex_pdf (Failure (U ''not a PDF''))) \<le> - 1"
  by (simp add: extract_text_info_def ex_env_def default_info_def)

subsection \<open>Input enumeration\<close>

lemma rfind_append:
  "rfind c (xs @ ys) =
     (case rfind c ys of Some i \<Rightarrow> Some (length xs + i) | None \<Rightarrow> rfind c xs)"
  by (induction xs) (auto split: option.splits)

lemma lower_pdf:
  assumes "lower t = U ''.pdf''"
  shows "rfind 46 t = Some 0 \<and> length t = 4"
proof -
  have "length (lower t) = length t" by (simp add: lower_def)
  with assms have len: "length t = 4" by simp
  then obtain a b c d where t: "t = [a, b, c, d]"
    by (auto simp: length_Suc_conv numeral_eq_Suc)
  with assms show ?thesis
    by (auto simp: lower_def split: if_splits)
qed

lemma suffix_ends_in_pdf:
  assumes "ends_in_pdf (name p)" "4 < length (name p)"
  shows "suffix p = drop (length (name p) - 4) (name p)"
proof -
  let ?n = "name p"
  let ?k = "length ?n - 4"
  have l: "lower (drop ?k ?n) = U ''.pdf''" using assms by (simp add: ends_in_pdf_def)
  from lower_pdf [OF l] have r: "rfind 46 (drop ?k ?n) = Some 0" by simp
  have "rfind 46 ?n = rfind 46 (take ?k ?n @ drop ?k ?n)" by simp
  also have "\<dots> = Some ?k"
    using r assms(2) by (simp only: rfind_append) simp
  finally have f: "rfind 46 ?n = Some ?k" .
  have "0 < ?k" "?k + 1 < length ?n" using assms(2) by arith+
  with f show ?thesis by (simp add: suffix_def)
qed

text \<open>
  C10, as the code has it. A single-file input whose name is a non-empty stem followed
  by \<open>.pdf\<close> in any letter case is returned as the one file of the batch, whatever the
  include-supplementary option and whether or not the name contains \<open>SI\<close>. For a
  directory, the result is what the recursive \<open>*.pdf\<close> enumeration yields; with the
  option off, the entries whose name contains \<open>SI\<close> are left out, with the option on
  nothing is left out.
\<close>

theorem single_file_bypasses_si_filter:
  "(is_file fs p \<and> ends_in_pdf (name p) \<and> 4 < length (name p) \<longrightarrow>
      find_pdf_files fs p include_si = [p])
   \<and> (\<not> is_file fs p \<and> is_dir fs p \<longrightarrow>
        find_pdf_files fs p True = glob_pdf fs p
        \<and> find_pdf_files fs p False =
            filter (\<lambda>f. \<not> contains (name f) (U ''SI'')) (glob_pdf fs p))"
proof (intro conjI impI)
  assume h: "is_file fs p \<and> ends_in_pdf (name p) \<and> 4 < length (name p)"
  then have "suffix p = drop (length (name p) - 4) (name p)"
    by (simp add: suffix_ends_in_pdf)
  with h have "lower (suffix p) = U ''.pdf''" by (simp add: ends_in_pdf_def)
  with h show "find_pdf_files fs p include_si = [p]"
    by (simp add: find_pdf_files_def)
next
  assume h: "\<not> is_file fs p \<and> is_dir fs p"
  then show "find_pdf_files fs p True = glob_pdf fs p"
    by (simp add: find_pdf_files_def)
  from h show "find_pdf_files fs p False =
      filter (\<lambda>f. \<not> contains (name f) (U ''SI'')) (glob_pdf fs p)"
    by (simp add: find_pdf_files_def)
qed

theorem single_file_bypasses_si_filter_witness:
  "is_file ex_fs [U ''pdfs'', U ''paper_SI.PDF'']
   \<and> ends_in_pdf (name [U ''pdfs'', U ''paper_SI.PDF''])
   \<and> contains (name [U ''pdfs'', U ''paper_SI.PDF'']) (U ''SI'')
   \<and> find_pdf_files ex_fs [U ''pdfs'', U ''paper_SI.PDF''] False
       = [[U ''pdfs'', U ''paper_SI.PDF'']]
   \<and> \<not> is_file ex_fs [U ''pdfs''] \<and> is_dir ex_fs [U ''pdfs'']
   \<and> find_pdf_files ex_fs [U ''pdfs''] True
       = [[U ''pdfs'', U ''paper.pdf''], [U ''pdfs'', U ''paper_SI.pdf''],
          [U ''pdfs'', U ''sub'', U ''other.pdf'']]
   \<and> find_pdf_files ex_fs [U ''pdfs''] False
       = [[U ''pdfs'', U ''paper.pdf''], [U ''pdfs'', U ''sub'', U ''other.pdf'']]"
proof -
  have a: "is_file ex_fs [U ''pdfs'', U ''paper_SI.PDF'']
           \<and> ends_in_pdf (name [U ''pdfs'', U ''paper_SI.PDF''])
           \<and> 4 < length (name [U ''pdfs'', U ''paper_SI.PDF''])"
    by (simp add: is_file_def ex_fs_def ends_in_pdf_def name_def lower_def)
  have b: "\<not> is_file ex_fs [U ''pdfs''] \<and> is_dir ex_fs [U ''pdfs'']"
    by (simp add: is_file_def is_dir_def ex_fs_def)
  have c: "contains (name [U ''pdfs'', U ''paper_SI.PDF'']) (U ''SI'')"
    by (simp add: name_def startswith_def)
  have g: "glob_pdf ex_fs [U ''pdfs'']
       = [[U ''pdfs'', U ''paper.pdf''], [U ''pdfs'', U ''paper_SI.pdf''],
          [U ''pdfs'', U ''sub'', U ''other.pdf'']]"
    by (simp add: glob_pdf_def ex_fs_def name_def)
  have f: "filter (\<lambda>f. \<not> contains (name f) (U ''SI''))
         [[U ''pdfs'', U ''paper.pdf''], [U ''pdfs'', U ''paper_SI.pdf''],
          [U ''pdfs'', U ''sub'', U ''other.pdf'']]
       = [[U ''pdfs'', U ''paper.pdf''], [U ''pdfs'', U ''sub'', U ''other.pdf'']]"
    by (simp add: name_def startswith_def)
  from a single_file_bypasses_si_filter [of ex_fs "[U ''pdfs'', U ''paper_SI.PDF'']" False]
  have s: "find_pdf_files ex_fs [U ''pdfs'', U ''paper_SI.PDF''] False
       = [[U ''pdfs'', U ''paper_SI.PDF'']]"
    by blast
  from b single_file_bypasses_si_filter [of ex_fs "[U ''pdfs'']"]
  have d1: "find_pdf_files ex_fs [U ''pdfs''] True = glob_pdf ex_fs [U ''pdfs'']"
    and d2: "find_pdf_files ex_fs [U ''pdfs''] False =
      filter (\<lambda>f. \<not> contains (name f) (U ''SI'')) (glob_pdf ex_fs [U ''pdfs''])"
    by blast+
  show ?thesis
    using a b c s d1 [unfolded g] d2 [unfolded g f] by blast
qed

theorem dot_pdf_single_file_counterexample:
  "is_file ex_fs [U ''.pdf''] \<and> ends_in_pdf (name [U ''.pdf''])
   \<and> find_pdf_files ex_fs [U ''.pdf''] False = []
   \<and> find_pdf_files ex_fs [U ''.pdf''] True = []"
  by (simp add: is_file_def ex_fs_def ends_in_pdf_def name_def lower_def
        find_pdf_files_def suffix_def)

subsection \<open>Image stage\<close>

lemma write_file_effect:
  assumes "write_file fs p = Inr fs'"
  shows "is_file fs' p" and "is_dir fs' q = is_dir fs q" and "is_file fs q \<Longrightarrow> is_file fs' q"
proof -
  have nd: "\<not> is_dir fs p" using assms by (auto simp: write_file_def split: if_splits)
  show "is_file fs' p"
  proof (cases "exists fs p")
    case True
    then have "fs' = fs" using assms by (auto simp: write_file_def split: if_splits)
    moreover from True nd have "map_of fs p = Some File"
      by (cases "map_of fs p"; cases "the (map_of fs p)") (auto simp: exists_def is_dir_def)
    ultimately show ?thesis by (simp add: is_file_def)
  next
    case False
    then have "fs' = fs @ [(p, File)]"
      using assms by (auto simp: write_file_def split: if_splits)
    with False show ?thesis by (auto simp: is_file_def exists_def map_add_def)
  qed
  show "is_dir fs' q = is_dir fs q"
    using assms
    by (auto simp: write_file_def is_dir_def exists_def map_add_def
             split: if_splits option.splits)
  show "is_file fs q \<Longrightarrow> is_file fs' q"
    using assms
    by (auto simp: write_file_def is_file_def exists_def map_add_def
             split: if_splits option.splits)
qed

lemma write_file_succeeds:
  "\<not> is_dir fs p \<Longrightarrow> is_dir fs (butlast p) \<Longrightarrow> \<exists>fs'. write_file fs p = Inr fs'"
  by (simp add: write_file_def)

lemma try_render_effect:
  assumes "try_render E d r fs = (res, fs')"
  shows "is_dir fs' q = is_dir fs q" and "is_file fs q \<Longrightarrow> is_file fs' q"
  using assms
  by (auto simp: try_render_def write_file_effect(2) write_file_effect(3)
           split: sum.splits option.splits)

lemma try_render_rendered:
  assumes "try_render E d r fs = (Inr r', fs')"
  shows "rendered E fs' d r r'"
proof (cases "images_generated r' = Some True")
  case False
  then show ?thesis
    using assms
    by (auto simp: try_render_def rendered_def split: sum.splits option.splits)
next
  case True
  then obtain rm pm ri pri fs1 where
    p: "MolFromSmiles E (reactant_smiles r) = Inr (Some rm)"
       "MolFromSmiles E (product_smiles r) = Inr (Some pm)"
    and w1: "write_file fs (reactant_path d r) = Inr fs1"
    and w2: "write_file fs1 (product_path d r) = Inr fs'"
    and r': "r' = r\<lparr>reactant_image := Some (reactant_path d r),
                     product_image := Some (product_path d r),
                     images_generated := Some True\<rparr>"
    using assms
    by (auto simp: try_render_def split: sum.splits option.splits)
  have "is_file fs1 (reactant_path d r)" using w1 by (rule write_file_effect(1))
  then have "is_file fs' (reactant_path d r)" using w2 by (simp add: write_file_effect(3))
  moreover have "is_file fs' (product_path d r)" using w2 by (rule write_file_effect(1))
  ultimately show ?thesis
    using p r' by (simp add: rendered_def renderable_def parses_def)
qed

lemma render_one_effect:
  assumes "render_one E d r fs = (r', fs')"
  shows "rendered E fs' d r r'"
    and "is_dir fs' q = is_dir fs q" and "is_file fs q \<Longrightarrow> is_file fs' q"
proof -
  obtain res fs1 where t: "try_render E d r fs = (res, fs1)" by (cases "try_render E d r fs")
  with assms have fs1: "fs1 = fs'" by (auto simp: render_one_def split: sum.splits)
  show "rendered E fs' d r r'"
  proof (cases res)
    case (Inl e)
    with t assms show ?thesis by (simp add: render_one_def rendered_def)
  next
    case (Inr x)
    with t assms fs1 have "try_render E d r fs = (Inr r', fs')" by (simp add: render_one_def)
    then show ?thesis by (rule try_render_rendered)
  qed
  show "is_dir fs' q = is_dir fs q" using t fs1 try_render_effect(1) by blast
  show "is_file fs q \<Longrightarrow> is_file fs' q" using t fs1 try_render_effect(2) by blast
qed

lemma rendered_mono:
  "rendered E fs d r r' \<Longrightarrow> (\<And>q. is_file fs q \<Longrightarrow> is_file fs' q) \<Longrightarrow> rendered E fs' d r r'"
  by (auto simp: rendered_def)

lemma render_all_effect:
  assumes "render_all E d rs fs = (rs', fs')"
  shows "list_all2 (rendered E fs' d) rs rs'
         \<and> (\<forall>q. is_dir fs' q = is_dir fs q) \<and> (\<forall>q. is_file fs q \<longrightarrow> is_file fs' q)"
  using assms
proof (induction rs arbitrary: fs rs' fs')
  case Nil
  then show ?case by simp
next
  case (Cons r rs)
  obtain r1 fs1 where one: "render_one E d r fs = (r1, fs1)" by (cases "render_one E d r fs")
  obtain rs1 fs2 where rest: "render_all E d rs fs1 = (rs1, fs2)"
    by (cases "render_all E d rs fs1")
  from Cons.prems one rest have eq: "rs' = r1 # rs1" "fs' = fs2" by simp_all
  note ih = Cons.IH [OF rest]
  have "rendered E fs2 d r r1"
    using render_one_effect(1) [OF one] ih by (auto intro: rendered_mono)
  moreover have "\<forall>q. is_dir fs2 q = is_dir fs q"
    using render_one_effect(2) [OF one] ih by simp
  moreover have "\<forall>q. is_file fs q \<longrightarrow> is_file fs2 q"
    using render_one_effect(3) [OF one] ih by blast
  ultimately show ?case using eq ih by simp
qed

lemma write_file_iff:
  "(\<exists>fs'. write_file fs p = Inr fs') = (\<not> is_dir fs p \<and> is_dir fs (butlast p))"
  by (auto simp: write_file_def)

lemma mkdir_is_dir: "mkdir fs p = Inr fs' \<Longrightarrow> is_dir fs' p"
  by (auto simp: mkdir_def is_dir_def exists_def map_add_def split: if_splits)

lemma image_parents:
  "butlast (reactant_path d r) = d" "butlast (product_path d r) = d"
  by (simp_all add: reactant_path_def product_path_def butlast_append)

lemma succeeds_cong:
  "(\<And>q. is_dir fs' q = is_dir fs q) \<Longrightarrow> succeeds E fs' d r = succeeds E fs d r"
  by (simp add: succeeds_def)

lemma render_one_expected:
  "fst (render_one E d r fs) = expected E fs d r"
proof (cases "succeeds E fs d r")
  case True
  then obtain rm pm where
    p: "MolFromSmiles E (reactant_smiles r) = Inr (Some rm)"
       "MolFromSmiles E (product_smiles r) = Inr (Some pm)"
    by (auto simp: succeeds_def drawn_def split: sum.splits option.splits)
  with True obtain ri pri where i: "MolToImage E rm = Inr ri" "MolToImage E pm = Inr pri"
    by (cases "MolToImage E rm"; cases "MolToImage E pm") (auto simp: succeeds_def drawn_def)
  from True obtain fs1 where w1: "write_file fs (reactant_path d r) = Inr fs1"
    using write_file_iff [of fs "reactant_path d r"] by (auto simp: succeeds_def image_parents)
  from True have "\<not> is_dir fs1 (product_path d r) \<and> is_dir fs1 (butlast (product_path d r))"
    by (simp add: succeeds_def image_parents write_file_effect(2) [OF w1])
  then obtain fs2 where w2: "write_file fs1 (product_path d r) = Inr fs2"
    using write_file_iff [of fs1 "product_path d r"] by blast
  show ?thesis
    using True p i w1 w2 by (simp add: render_one_def try_render_def expected_def)
next
  case False
  obtain r' fs' where o: "render_one E d r fs = (r', fs')" by (cases "render_one E d r fs")
  have "images_generated r' \<noteq> Some True"
  proof
    assume t: "images_generated r' = Some True"
    with o obtain rm pm ri pri fs1 where
      "MolFromSmiles E (reactant_smiles r) = Inr (Some rm)"
      "MolFromSmiles E (product_smiles r) = Inr (Some pm)"
      "MolToImage E rm = Inr ri" "MolToImage E pm = Inr pri"
      "write_file fs (reactant_path d r) = Inr fs1"
      "write_file fs1 (product_path d r) = Inr fs'"
      by (auto simp: render_one_def try_render_def split: sum.splits option.splits)
    then have "succeeds E fs d r"
      using write_file_iff [of fs "reactant_path d r"] write_file_iff [of fs1 "product_path d r"]
        write_file_effect(2) [of fs "reactant_path d r" fs1]
      by (auto simp: succeeds_def drawn_def image_parents)
    with False show False by simp
  qed
  moreover have "rendered E fs' d r r'" using o by (rule render_one_effect(1))
  ultimately have "r' = r\<lparr>images_generated := Some False\<rparr>"
    by (auto simp: rendered_def)
  with False o show ?thesis by (simp add: expected_def)
qed

lemma render_all_expected:
  "fst (render_all E d rs fs) = map (expected E fs d) rs"
proof (induction rs arbitrary: fs)
  case Nil
  then show ?case by simp
next
  case (Cons r rs)
  obtain r1 fs1 where one: "render_one E d r fs = (r1, fs1)" by (cases "render_one E d r fs")
  have dirs: "is_dir fs1 q = is_dir fs q" for q by (rule render_one_effect(2) [OF one])
  have e: "expected E fs1 d = expected E fs d"
    by (rule ext) (simp add: expected_def succeeds_cong [of fs1 fs, OF dirs])
  have "r1 = expected E fs d r" using render_one_expected [of E d r fs] one by simp
  with Cons.IH [of fs1] one e show ?case
    by (cases "render_all E d rs fs1") simp
qed

lemma count_expected:
  "length (filter (\<lambda>r'. images_generated r' = Some True) (map (expected E fs d) rs))
     = length (filter (succeeds E fs d) rs)"
  by (induction rs) (simp_all add: expected_def)

lemma length_filter_complement:
  "length (filter P xs) = length xs - length (filter (\<lambda>x. \<not> P x) xs)"
  using sum_length_filter_compl [of P xs] by arith

lemma unparsable_fails: "\<not> renderable E r \<Longrightarrow> \<not> succeeds E fs d r"
  by (auto simp: renderable_def parses_def succeeds_def drawn_def
           split: sum.splits option.splits)

text \<open>
  C5, as the code has it. Without RDKit the stage returns its input unchanged; with
  RDKit, where the image directory cannot be created it raises (before any record is
  touched), and where it is created the stage returns what the loop over the records
  gives. The loop returns one record for every input record, in the same order, and
  each output record is decided by its own input record alone, whatever the other
  records do (fail to parse, raise while drawing or saving): it is the input with
  \<open>images_generated = True\<close> and both image paths where both identifiers are parsed, drawn
  and saved, and the input with \<open>images_generated = False\<close> otherwise; in the first case both
  image files exist afterwards. A record whose identifiers do not parse has
  \<open>images_generated = False\<close>. Of three records of which exactly one does not parse and the
  other two are drawn and saved, exactly two have \<open>images_generated = True\<close>.
\<close>

theorem image_stage_isolates_records:
  "(\<not> rdkit_available E \<longrightarrow> generate_reaction_images E fs0 rs out_dir = Inr (rs, fs0))
   \<and> (rdkit_available E \<and> mkdir fs0 (out_dir @ [U ''reaction_images'']) = Inl e \<longrightarrow>
        generate_reaction_images E fs0 rs out_dir = Inl e)
   \<and> (rdkit_available E \<and> mkdir fs0 (out_dir @ [U ''reaction_images'']) = Inr fs1 \<longrightarrow>
        generate_reaction_images E fs0 rs out_dir
          = Inr (map (expected E fs1 (out_dir @ [U ''reaction_images''])) rs,
                 snd (render_all E (out_dir @ [U ''reaction_images'']) rs fs1))
        \<and> is_dir fs1 (out_dir @ [U ''reaction_images'']))
   \<and> fst (render_all E d rs fs) = map (expected E fs d) rs
   \<and> length (fst (render_all E d rs fs)) = length rs
   \<and> list_all2 (rendered E (snd (render_all E d rs fs)) d) rs (fst (render_all E d rs fs))
   \<and> images_generated (expected E fs d r) = Some (succeeds E fs d r)
   \<and> (\<not> renderable E r \<longrightarrow> expected E fs d r = r\<lparr>images_generated := Some False\<rparr>)
   \<and> (length rs = 3 \<and> length (filter (\<lambda>r. \<not> renderable E r) rs) = 1
        \<and> list_all (\<lambda>r. renderable E r \<longrightarrow> succeeds E fs d r) rs \<longrightarrow>
        length (fst (render_all E d rs fs)) = 3
        \<and> length (filter (\<lambda>r'. images_generated r' = Some True)
                    (fst (render_all E d rs fs))) = 2)"
proof (intro conjI impI)
  show "\<not> rdkit_available E \<Longrightarrow> generate_reaction_images E fs0 rs out_dir = Inr (rs, fs0)"
    by (simp add: generate_reaction_images_def)
  show "rdkit_available E \<and> mkdir fs0 (out_dir @ [U ''reaction_images'']) = Inl e \<Longrightarrow>
        generate_reaction_images E fs0 rs out_dir = Inl e"
    by (simp add: generate_reaction_images_def)
  show "fst (render_all E d rs fs) = map (expected E fs d) rs"
    by (rule render_all_expected)
  show "length (fst (render_all E d rs fs)) = length rs"
    by (simp add: render_all_expected)
  show "list_all2 (rendered E (snd (render_all E d rs fs)) d) rs (fst (render_all E d rs fs))"
    using render_all_effect [of E d rs fs "fst (render_all E d rs fs)" "snd (render_all E d rs fs)"]
    by simp
  show "images_generated (expected E fs d r) = Some (succeeds E fs d r)"
    by (simp add: expected_def)
  show "\<not> renderable E r \<Longrightarrow> expected E fs d r = r\<lparr>images_generated := Some False\<rparr>"
    by (simp add: expected_def unparsable_fails)
next
  assume h: "rdkit_available E \<and> mkdir fs0 (out_dir @ [U ''reaction_images'']) = Inr fs1"
  let ?d = "out_dir @ [U ''reaction_images'']"
  have "generate_reaction_images E fs0 rs out_dir = Inr (render_all E ?d rs fs1)"
    using h by (simp add: generate_reaction_images_def)
  also have "render_all E ?d rs fs1 = (fst (render_all E ?d rs fs1), snd (render_all E ?d rs fs1))"
    by simp
  finally show "generate_reaction_images E fs0 rs out_dir
          = Inr (map (expected E fs1 ?d) rs, snd (render_all E ?d rs fs1))"
    by (simp only: render_all_expected)
  from h show "is_dir fs1 ?d" using mkdir_is_dir by blast
next
  assume h: "length rs = 3 \<and> length (filter (\<lambda>r. \<not> renderable E r) rs) = 1
        \<and> list_all (\<lambda>r. renderable E r \<longrightarrow> succeeds E fs d r) rs"
  then show "length (fst (render_all E d rs fs)) = 3" by (simp add: render_all_expected)
  from h have "\<forall>r\<in>set rs. succeeds E fs d r = renderable E r"
    using unparsable_fails [of E _ fs d] by (auto simp: list_all_iff)
  then have "filter (succeeds E fs d) rs = filter (renderable E) rs"
    by (simp cong: filter_cong)
  then have "length (filter (\<lambda>r'. images_generated r' = Some True) (fst (render_all E d rs fs)))
               = length rs - length (filter (\<lambda>r. \<not> renderable E r) rs)"
    by (simp only: render_all_expected count_expected length_filter_complement [of "renderable E" rs])
  with h show "length (filter (\<lambda>r'. images_generated r' = Some True)
                    (fst (render_all E d rs fs))) = 2"
    by simp
qed

lemma ex_flags:
  "succeeds ex_env ex_out_fs ex_images_dir ex_first"
  "\<not> succeeds ex_env ex_out_fs ex_images_dir ex_unparsable"
  "succeeds ex_env ex_out_fs ex_images_dir ex_third"
  "\<not> succeeds ex_env ex_out_fs ex_images_dir ex_undrawable"
  "renderable ex_env ex_first"
  "\<not> renderable ex_env ex_unparsable"
  "renderable ex_env ex_third"
  "renderable ex_env ex_undrawable"
  by (simp_all add: succeeds_def drawn_def renderable_def parses_def ex_env_def ex_reaction_def
        ex_first_def ex_unparsable_def ex_third_def ex_undrawable_def
        is_dir_def ex_out_fs_def ex_images_dir_def reactant_path_def product_path_def)

lemma ex_blocked_mkdir:
  "mkdir ex_images_blocked_fs ([U ''out''] @ [U ''reaction_images'']) = Inl OSError"
  by (simp add: mkdir_def is_dir_def exists_def ex_images_blocked_fs_def)

lemma ex_images_mkdir:
  "mkdir [([U ''out''], Dir)] ([U ''out''] @ [U ''reaction_images'']) = Inr ex_out_fs"
  by (simp add: mkdir_def is_dir_def exists_def ex_out_fs_def)

theorem image_stage_isolates_records_witness:
  "\<not> rdkit_available (ex_env\<lparr>rdkit_available := False\<rparr>)
   \<and> generate_reaction_images (ex_env\<lparr>rdkit_available := False\<rparr>) ex_out_fs ex_records [U ''out'']
       = Inr (ex_records, ex_out_fs)
   \<and> rdkit_available ex_env
   \<and> mkdir ex_images_blocked_fs ([U ''out''] @ [U ''reaction_images'']) = Inl OSError
   \<and> generate_reaction_images ex_env ex_images_blocked_fs ex_records [U ''out''] = Inl OSError
   \<and> mkdir [([U ''out''], Dir)] ([U ''out''] @ [U ''reaction_images'']) = Inr ex_out_fs
   \<and> map images_generated
       (case generate_reaction_images ex_env [([U ''out''], Dir)] ex_undrawable_records [U ''out'']
        of Inl e \<Rightarrow> [] | Inr (rs', fs') \<Rightarrow> rs')
       = [Some True, Some False, Some False]
   \<and> \<not> renderable ex_env ex_unparsable
   \<and> expected ex_env ex_out_fs ex_images_dir ex_unparsable
       = ex_unparsable\<lparr>images_generated := Some False\<rparr>
   \<and> length ex_records = 3
   \<and> length (filter (\<lambda>r. \<not> renderable ex_env r) ex_records) = 1
   \<and> list_all (\<lambda>r. succeeds ex_env ex_out_fs ex_images_dir r = renderable ex_env r) ex_records
   \<and> map images_generated (fst (render_all ex_env ex_images_dir ex_records ex_out_fs))
       = [Some True, Some False, Some True]
   \<and> length (filter (\<lambda>r'. images_generated r' = Some True)
       (fst (render_all ex_env ex_images_dir ex_records ex_out_fs))) = 2"
proof -
  let ?E0 = "ex_env\<lparr>rdkit_available := False\<rparr>"
  note T = image_stage_isolates_records
  have u: "\<not> rdkit_available ?E0" by simp
  have a: "rdkit_available ex_env" by (simp add: ex_env_def)
  from u T [of ?E0 ex_out_fs ex_records "[U ''out'']"]
  have r0: "generate_reaction_images ?E0 ex_out_fs ex_records [U ''out'']
              = Inr (ex_records, ex_out_fs)"
    by blast
  from a ex_blocked_mkdir T [of ex_env ex_images_blocked_fs ex_records "[U ''out'']" OSError]
  have r1: "generate_reaction_images ex_env ex_images_blocked_fs ex_records [U ''out'']
              = Inl OSError"
    by blast
  have d: "[U ''out''] @ [U ''reaction_images''] = ex_images_dir"
    by (simp add: ex_images_dir_def)
  from a ex_images_mkdir
    T [of ex_env "[([U ''out''], Dir)]" ex_undrawable_records "[U ''out'']" _ ex_out_fs]
  have "generate_reaction_images ex_env [([U ''out''], Dir)] ex_undrawable_records [U ''out'']
          = Inr (map (expected ex_env ex_out_fs ([U ''out''] @ [U ''reaction_images'']))
                   ex_undrawable_records,
                 snd (render_all ex_env ([U ''out''] @ [U ''reaction_images''])
                        ex_undrawable_records ex_out_fs))"
    by blast
  then have g: "generate_reaction_images ex_env [([U ''out''], Dir)] ex_undrawable_records
          [U ''out'']
          = Inr (map (expected ex_env ex_out_fs ex_images_dir) ex_undrawable_records,
                 snd (render_all ex_env ex_images_dir ex_undrawable_records ex_out_fs))"
    by (simp only: d)
  have r2: "map images_generated
       (case generate_reaction_images ex_env [([U ''out''], Dir)] ex_undrawable_records [U ''out'']
        of Inl e \<Rightarrow> [] | Inr (rs', fs') \<Rightarrow> rs')
       = [Some True, Some False, Some False]"
    by (simp only: g) (simp add: ex_undrawable_records_def expected_def ex_flags)
  from ex_flags(6)
    T [where E = ex_env and r = ex_unparsable and d = ex_images_dir and fs = ex_out_fs]
  have x: "expected ex_env ex_out_fs ex_images_dir ex_unparsable
       = ex_unparsable\<lparr>images_generated := Some False\<rparr>"
    by blast
  have l: "length ex_records = 3" by (simp add: ex_records_def)
  have c: "length (filter (\<lambda>r. \<not> renderable ex_env r) ex_records) = 1"
    by (simp add: ex_records_def ex_flags)
  have s: "list_all (\<lambda>r. succeeds ex_env ex_out_fs ex_images_dir r = renderable ex_env r)
             ex_records"
    by (simp add: ex_records_def ex_flags)
  then have s': "list_all (\<lambda>r. renderable ex_env r \<longrightarrow> succeeds ex_env ex_out_fs ex_images_dir r)
             ex_records"
    by (simp add: list_all_iff)
  from T [where E = ex_env and rs = ex_records and d = ex_images_dir and fs = ex_out_fs]
  have "fst (render_all ex_env ex_images_dir ex_records ex_out_fs)
          = map (expected ex_env ex_out_fs ex_images_dir) ex_records"
    by blast
  then have f: "map images_generated (fst (render_all ex_env ex_images_dir ex_records ex_out_fs))
       = [Some True, Some False, Some True]"
    by (simp add: ex_records_def expected_def ex_flags)
  from l c s' T [where E = ex_env and rs = ex_records and d = ex_images_dir and fs = ex_out_fs]
  have n: "length (filter (\<lambda>r'. images_generated r' = Some True)
       (fst (render_all ex_env ex_images_dir ex_records ex_out_fs))) = 2"
    by blast
  from u r0 a ex_blocked_mkdir r1 ex_images_mkdir r2 ex_flags(6) x l c s f n show ?thesis
    by (intro conjI) assumption+
qed

theorem image_stage_raises_counterexample:
  "generate_reaction_images ex_env ex_images_blocked_fs ex_records [U ''out''] = Inl OSError
   \<and> length (filter (\<lambda>r. \<not> renderable ex_env r) ex_undrawable_records) = 1
   \<and> map images_generated
       (fst (render_all ex_env ex_images_dir ex_undrawable_records ex_out_fs))
       = [Some True, Some False, Some False]
   \<and> length (filter (\<lambda>r. \<not> renderable ex_env r) ex_records) = 1
   \<and> generate_reaction_images (ex_env\<lparr>rdkit_available := False\<rparr>) ex_out_fs ex_records [U ''out'']
       = Inr (ex_records, ex_out_fs)
   \<and> map images_generated ex_records = [None, None, None]"
proof -
  have "generate_reaction_images ex_env ex_images_blocked_fs ex_records [U ''out''] = Inl OSError"
    using ex_blocked_mkdir by (simp add: generate_reaction_images_def ex_env_def)
  moreover have "length (filter (\<lambda>r. \<not> renderable ex_env r) ex_undrawable_records) = 1"
    by (simp add: ex_undrawable_records_def ex_flags)
  moreover have "map images_generated
       (fst (render_all ex_env ex_images_dir ex_undrawable_records ex_out_fs))
       = [Some True, Some False, Some False]"
    by (simp only: render_all_expected) (simp add: ex_undrawable_records_def expected_def ex_flags)
  moreover have "length (filter (\<lambda>r. \<not> renderable ex_env r) ex_records) = 1"
    by (simp add: ex_records_def ex_flags)
  moreover have "generate_reaction_images (ex_env\<lparr>rdkit_available := False\<rparr>) ex_out_fs
       ex_records [U ''out''] = Inr (ex_records, ex_out_fs)"
    by (simp add: generate_reaction_images_def)
  moreover have "map images_generated ex_records = [None, None, None]"
    by (simp add: ex_records_def ex_reaction_def ex_first_def ex_unparsable_def ex_third_def)
  ultimately show ?thesis by (intro conjI)
qed

subsection \<open>Document assembler\<close>

lemma split_lines_nonempty: "split_lines s \<noteq> []"
  by (induction s) (auto split: list.splits)

lemma split_lines_append: "split_lines (x @ 10 # y) = split_lines x @ split_lines y"
proof (induction x)
  case Nil
  then show ?case by simp
next
  case (Cons c cs)
  obtain l ls where "split_lines cs = l # ls"
    using split_lines_nonempty [of cs] by (cases "split_lines cs") auto
  with Cons show ?case by simp
qed

lemma marker_lines: "split_lines truncation_marker = [[], [], drop 2 truncation_marker]"
  by (simp add: truncation_marker_def)

lemma marker_not_blank: "strip (drop 2 truncation_marker) \<noteq> []"
  by (simp add: truncation_marker_def strip_def isspace_def)

lemma line_paragraphs_truncated:
  "line_paragraphs cs (x @ truncation_marker) =
     line_paragraphs cs x
     @ [Experimental_line (drop 2 truncation_marker)
          (compound_start cs (drop 2 truncation_marker))]"
proof -
  have m: "truncation_marker = 10 # 10 # drop 2 truncation_marker"
    by (simp add: truncation_marker_def)
  have d: "split_lines (drop 2 truncation_marker) = [drop 2 truncation_marker]"
    by (simp add: truncation_marker_def)
  have "split_lines (x @ truncation_marker)
          = split_lines x @ split_lines (10 # drop 2 truncation_marker)"
    by (subst m) (rule split_lines_append)
  also have "\<dots> = split_lines x @ [[], drop 2 truncation_marker]"
    by (simp add: d)
  finally show ?thesis
    using marker_not_blank by (simp add: line_paragraphs_def strip_def)
qed

lemma split_lines_no_lf: "10 \<notin> set x \<Longrightarrow> split_lines x = [x]"
  by (induction x) auto

lemma line_paragraphs_first:
  "10 \<notin> set x \<Longrightarrow> strip x \<noteq> [] \<Longrightarrow>
     line_paragraphs cs (x @ 10 # y) = Experimental_line x (compound_start cs x) # line_paragraphs cs y"
  by (simp add: line_paragraphs_def split_lines_append split_lines_no_lf)

lemma line_paragraphs_ok:
  "list_all para_ok (line_paragraphs cs x)
     = list_all xml_compatible (filter (\<lambda>line. strip line \<noteq> []) (split_lines x))"
  by (simp add: line_paragraphs_def list_all_iff)

lemma add_paragraphs_eq:
  "add_paragraphs doc ps = (if list_all para_ok ps then Inr (doc @ ps) else Inl ValueError)"
  by (induction ps arbitrary: doc) (simp_all add: add_paragraph_def)

lemma and_then_add:
  "and_then (add_paragraphs doc xs) (\<lambda>d. add_paragraphs d ys) = add_paragraphs doc (xs @ ys)"
  by (simp add: and_then_def add_paragraphs_eq)

lemma format_lines_eq:
  "format_lines cs lines doc =
     add_paragraphs doc
       (map (\<lambda>line. Experimental_line line (compound_start cs line))
          (filter (\<lambda>line. strip line \<noteq> []) lines))"
  by (induction lines arbitrary: doc) (simp_all add: add_paragraph_def add_paragraphs_eq)

lemma source_section_eq:
  "source_section info lang doc = add_paragraphs doc (source_paragraphs info lang)"
  by (simp add: source_section_def source_paragraphs_def line_paragraphs_def format_lines_eq
        add_paragraph_def add_paragraphs_eq)

lemma add_reactions_eq:
  "add_reactions E fs rs doc = add_paragraphs doc (concat (map (reaction_paragraphs E fs) rs))"
  by (induction rs arbitrary: doc) (simp_all add: add_paragraphs_eq)

lemma reaction_section_eq:
  "reaction_section E fs rs doc = add_paragraphs doc (reactions_paragraphs E fs rs)"
  by (simp add: reaction_section_def reactions_paragraphs_def add_reactions_eq add_paragraphs_eq)

lemma document_body_eq:
  "document_body E fs info rs lang doc = add_paragraphs doc (body_paragraphs E fs info rs lang)"
proof -
  have p: "props_section info = (\<lambda>d. add_paragraphs d (props_paragraphs info))"
    by (rule ext) (simp add: props_section_def props_paragraphs_def)
  have t: "target_section lang = (\<lambda>d. add_paragraphs d (target_paragraphs lang))"
    by (rule ext) (simp add: target_section_def target_paragraphs_def)
  have s: "source_section info lang = (\<lambda>d. add_paragraphs d (source_paragraphs info lang))"
    by (rule ext) (rule source_section_eq)
  have r: "reaction_section E fs rs = (\<lambda>d. add_paragraphs d (reactions_paragraphs E fs rs))"
    by (rule ext) (rule reaction_section_eq)
  have c: "closing_section info rs = (\<lambda>d. add_paragraphs d (closing_paragraphs info rs))"
    by (rule ext) (simp add: closing_section_def)
  show ?thesis
    by (simp only: document_body_def title_section_def p t s r c and_then_add
          body_paragraphs_def append_assoc)
qed

lemma create_word_document_eq:
  "create_word_document E fs info rs out lang tpl =
     (if \<not> docx_available E then Inr (False, fs, [])
      else case template_error E fs tpl of
        Some e \<Rightarrow> Inl e
      | None \<Rightarrow>
          if \<not> list_all para_ok (body_paragraphs E fs info rs lang) then Inl ValueError
          else case write_file fs out of
            Inl e \<Rightarrow> Inl e
          | Inr fs' \<Rightarrow>
              Inr (True, fs', template_content E fs tpl @ body_paragraphs E fs info rs lang))"
  by (simp add: create_word_document_def template_error_def template_content_def
        document_body_eq add_paragraphs_eq split: option.splits sum.splits)

lemma create_word_document_saved:
  "(create_word_document E fs info rs out lang tpl = Inr (True, fs', doc))
     = (docx_available E \<and> template_loads E fs tpl
        \<and> list_all para_ok (body_paragraphs E fs info rs lang)
        \<and> write_file fs out = Inr fs'
        \<and> doc = template_content E fs tpl @ body_paragraphs E fs info rs lang)"
  by (auto simp: create_word_document_eq template_loads_def split: option.splits sum.splits)


lemma create_word_document_raised:
  "(create_word_document E fs info rs out lang tpl = Inl e)
     = (docx_available E
        \<and> (template_error E fs tpl = Some e
           \<or> (template_loads E fs tpl
               \<and> \<not> list_all para_ok (body_paragraphs E fs info rs lang) \<and> e = ValueError)
           \<or> (template_loads E fs tpl
               \<and> list_all para_ok (body_paragraphs E fs info rs lang)
               \<and> write_file fs out = Inl e)))"
  by (auto simp: create_word_document_eq template_loads_def split: option.splits sum.splits)

lemma source_paragraphs_in_body:
  "list_all para_ok (body_paragraphs E fs info rs lang) \<Longrightarrow>
     list_all para_ok (source_paragraphs info lang)"
  by (simp add: body_paragraphs_def)

lemma ex_template: "template_loads ex_env fs None" "template_content ex_env fs None = []"
  by (simp_all add: template_loads_def template_error_def template_content_def)

lemma ex_docx_available: "docx_available ex_env"
  by (simp add: ex_env_def)

lemma ex_save: "write_file ex_out_fs ex_doc_path = Inr (ex_out_fs @ [(ex_doc_path, File)])"
  by (simp add: write_file_def is_dir_def exists_def ex_out_fs_def ex_doc_path_def)

lemma ex_paper: "stem ex_pdf = U ''paper''" "name ex_pdf = U ''paper.pdf''"
  by (simp_all add: stem_def name_def ex_pdf_def)

lemma ex_frame:
  "title_paragraphs (ex_text_info t) = [Title_stem (U ''paper''), Empty_paragraph]"
  "props_paragraphs (ex_text_info t) = []"
  "closing_paragraphs (ex_text_info t) []
     = [Empty_paragraph, Spectra_heading, To_complete, Empty_paragraph, Rule,
        Meta (U ''paper.pdf'') 3 3 0]"
  by (simp_all add: title_paragraphs_def props_paragraphs_def closing_paragraphs_def ex_text_info_def
        ex_paper)

lemma ex_long_source:
  "source_paragraphs (ex_text_info ex_long_text) en
     = [Original_heading, Experimental_line (replicate 5000 97) False, ex_marker_line]"
proof -
  have t: "truncate_text ex_long_text = replicate 5000 97 @ truncation_marker"
    by (simp add: truncate_text_def ex_long_text_def)
  have f: "line_paragraphs [] (replicate 5000 97) = [Experimental_line (replicate 5000 97) False]"
    by (simp add: line_paragraphs_def split_lines_no_lf strip_def isspace_def compound_start_def)
  have n: "ex_long_text \<noteq> []" by (simp add: ex_long_text_def)
  have "source_paragraphs (ex_text_info ex_long_text) en
          = Original_heading # line_paragraphs [] (truncate_text ex_long_text)"
    using n by (simp add: source_paragraphs_def ex_text_info_def)
  then show ?thesis
    by (simp only: t line_paragraphs_truncated f) (simp add: ex_marker_line_def compound_start_def)
qed

lemma ex_blank_source:
  "source_paragraphs (ex_text_info ex_blank_text) en = [Original_heading, ex_marker_line]"
proof -
  have t: "truncate_text ex_blank_text = replicate 5000 32 @ truncation_marker"
    by (simp add: truncate_text_def ex_blank_text_def)
  have f: "line_paragraphs [] (replicate 5000 32) = []"
    by (simp add: line_paragraphs_def split_lines_no_lf strip_def isspace_def)
  have n: "ex_blank_text \<noteq> []" by (simp add: ex_blank_text_def)
  have "source_paragraphs (ex_text_info ex_blank_text) en
          = Original_heading # line_paragraphs [] (truncate_text ex_blank_text)"
    using n by (simp add: source_paragraphs_def ex_text_info_def)
  then show ?thesis
    by (simp only: t line_paragraphs_truncated f) (simp add: ex_marker_line_def compound_start_def)
qed

lemma ex_long_body:
  "body_paragraphs ex_env ex_out_fs (ex_text_info ex_long_text) [] en = ex_long_doc"
  by (simp only: body_paragraphs_def ex_frame ex_long_source)
     (simp add: target_paragraphs_def reactions_paragraphs_def ex_long_doc_def)

lemma ex_long_ok: "list_all para_ok ex_long_doc"
  by (simp add: ex_long_doc_def ex_marker_line_def xml_compatible_def truncation_marker_def
        list_all_iff)

lemma ex_form_feed_rejected:
  "\<not> list_all para_ok (body_paragraphs ex_env fs (ex_text_info ex_form_feed_text) rs en)"
  "\<not> list_all para_ok (body_paragraphs ex_env fs (ex_text_info ex_form_feed_text) rs both)"
proof -
  have t: "truncate_text ex_form_feed_text
             = [97, 12] @ 10 # (replicate 4997 98 @ truncation_marker)"
    by (simp add: truncate_text_def ex_form_feed_text_def)
  have s: "strip [97, 12] \<noteq> []" by (simp add: strip_def isspace_def)
  have f: "line_paragraphs [] (truncate_text ex_form_feed_text)
             = Experimental_line [97, 12] (compound_start [] [97, 12])
               # line_paragraphs [] (replicate 4997 98 @ truncation_marker)"
    unfolding t by (rule line_paragraphs_first [OF _ s]) simp
  have "source_paragraphs (ex_text_info ex_form_feed_text) en
          = Original_heading # line_paragraphs [] (truncate_text ex_form_feed_text)"
    by (simp add: source_paragraphs_def ex_text_info_def ex_form_feed_text_def)
  then have n: "\<not> list_all para_ok (source_paragraphs (ex_text_info ex_form_feed_text) en)"
    by (simp only: f) (simp add: xml_compatible_def)
  have b: "source_paragraphs (ex_text_info ex_form_feed_text) both
             = source_paragraphs (ex_text_info ex_form_feed_text) en"
    by (simp add: source_paragraphs_def)
  from n show
    "\<not> list_all para_ok (body_paragraphs ex_env fs (ex_text_info ex_form_feed_text) rs en)"
    using source_paragraphs_in_body by blast
  from n b show
    "\<not> list_all para_ok (body_paragraphs ex_env fs (ex_text_info ex_form_feed_text) rs both)"
    using source_paragraphs_in_body [of ex_env fs "ex_text_info ex_form_feed_text" rs both]
    by auto
qed

text \<open>
  C7, as the code has it. An experimental text of more than 5000 characters is cut to its
  first 5000 characters followed by the truncation marker, a text of at most 5000
  characters is left as it is; a text of 6000 characters becomes 5000 characters and the
  marker. The source-language section, written for the language selectors \<open>en\<close> and
  \<open>both\<close> when the text is not empty, is the heading followed by one paragraph for every
  line of the cut text that is not blank: for an over-long text, the paragraphs of the
  first 5000 characters followed by one paragraph holding the marker. The loop over the
  lines and the section add exactly these paragraphs where every line that is not blank
  is XML-compatible, and raise \<open>ValueError\<close> otherwise. The document the assembler saves
  is the content of the template followed by the title, this section, and the sections
  after it, and it is saved whenever python-docx is available, the template loads, every
  paragraph is accepted and the output file can be written; where a paragraph is not
  accepted, the assembler raises \<open>ValueError\<close>.
\<close>

theorem experimental_text_truncated:
  "(length t > 5000 \<longrightarrow>
      truncate_text t = take 5000 t @ truncation_marker \<and> length (take 5000 t) = 5000)
   \<and> (length t \<le> 5000 \<longrightarrow> truncate_text t = t)
   \<and> (length t = 6000 \<longrightarrow>
        truncate_text t = take 5000 t @ truncation_marker
        \<and> length (truncate_text t) = 5000 + length truncation_marker)
   \<and> ((lang = en \<or> lang = both) \<and> experimental_text info = t \<and> t \<noteq> [] \<longrightarrow>
        source_paragraphs info lang
          = Original_heading # line_paragraphs (compounds info) (truncate_text t))
   \<and> ((lang = en \<or> lang = both) \<and> experimental_text info = t \<and> length t > 5000 \<longrightarrow>
        source_paragraphs info lang
          = Original_heading # line_paragraphs (compounds info) (take 5000 t)
            @ [Experimental_line (drop 2 truncation_marker)
                 (compound_start (compounds info) (drop 2 truncation_marker))])
   \<and> list_all para_ok (line_paragraphs cs x)
       = list_all xml_compatible (filter (\<lambda>line. strip line \<noteq> []) (split_lines x))
   \<and> format_lines cs (split_lines x) doc0
       = (if list_all xml_compatible (filter (\<lambda>line. strip line \<noteq> []) (split_lines x))
          then Inr (doc0 @ line_paragraphs cs x) else Inl ValueError)
   \<and> source_section info lang doc0
       = (if list_all para_ok (source_paragraphs info lang)
          then Inr (doc0 @ source_paragraphs info lang) else Inl ValueError)
   \<and> (create_word_document E fs info rs out lang tpl = Inr (True, fs', doc) \<longrightarrow>
        doc = template_content E fs tpl @ title_paragraphs info @ source_paragraphs info lang
              @ props_paragraphs info @ target_paragraphs lang @ reactions_paragraphs E fs rs
              @ closing_paragraphs info rs
        \<and> list_all para_ok (source_paragraphs info lang)
        \<and> write_file fs out = Inr fs')
   \<and> (docx_available E \<and> template_loads E fs tpl
        \<and> list_all para_ok (body_paragraphs E fs info rs lang)
        \<and> write_file fs out = Inr fs' \<longrightarrow>
        create_word_document E fs info rs out lang tpl
          = Inr (True, fs', template_content E fs tpl @ body_paragraphs E fs info rs lang))
   \<and> (docx_available E \<and> template_loads E fs tpl
        \<and> \<not> list_all para_ok (body_paragraphs E fs info rs lang) \<longrightarrow>
        create_word_document E fs info rs out lang tpl = Inl ValueError)"
proof (intro conjI impI)
  assume "length t > 5000"
  then show "truncate_text t = take 5000 t @ truncation_marker" "length (take 5000 t) = 5000"
    by (simp_all add: truncate_text_def)
next
  assume "length t \<le> 5000"
  then show "truncate_text t = t" by (simp add: truncate_text_def)
next
  assume "length t = 6000"
  then show "truncate_text t = take 5000 t @ truncation_marker"
    "length (truncate_text t) = 5000 + length truncation_marker"
    by (simp_all add: truncate_text_def)
next
  assume "(lang = en \<or> lang = both) \<and> experimental_text info = t \<and> t \<noteq> []"
  then show "source_paragraphs info lang
          = Original_heading # line_paragraphs (compounds info) (truncate_text t)"
    by (auto simp: source_paragraphs_def)
next
  assume h: "(lang = en \<or> lang = both) \<and> experimental_text info = t \<and> length t > 5000"
  then have "t \<noteq> []" by auto
  with h have "source_paragraphs info lang
          = Original_heading # line_paragraphs (compounds info) (take 5000 t @ truncation_marker)"
    by (auto simp: source_paragraphs_def truncate_text_def)
  then show "source_paragraphs info lang
          = Original_heading # line_paragraphs (compounds info) (take 5000 t)
            @ [Experimental_line (drop 2 truncation_marker)
                 (compound_start (compounds info) (drop 2 truncation_marker))]"
    by (simp only: line_paragraphs_truncated)
next
  show "list_all para_ok (line_paragraphs cs x)
       = list_all xml_compatible (filter (\<lambda>line. strip line \<noteq> []) (split_lines x))"
    by (rule line_paragraphs_ok)
next
  show "format_lines cs (split_lines x) doc0
       = (if list_all xml_compatible (filter (\<lambda>line. strip line \<noteq> []) (split_lines x))
          then Inr (doc0 @ line_paragraphs cs x) else Inl ValueError)"
    by (simp only: format_lines_eq line_paragraphs_def [symmetric] add_paragraphs_eq
          line_paragraphs_ok)
next
  show "source_section info lang doc0
       = (if list_all para_ok (source_paragraphs info lang)
          then Inr (doc0 @ source_paragraphs info lang) else Inl ValueError)"
    by (simp only: source_section_eq add_paragraphs_eq)
next
  assume s: "create_word_document E fs info rs out lang tpl = Inr (True, fs', doc)"
  then have d: "doc = template_content E fs tpl @ body_paragraphs E fs info rs lang"
    and ok: "list_all para_ok (body_paragraphs E fs info rs lang)"
    and w: "write_file fs out = Inr fs'"
    by (simp_all add: create_word_document_saved)
  from d show "doc = template_content E fs tpl @ title_paragraphs info @ source_paragraphs info lang
              @ props_paragraphs info @ target_paragraphs lang @ reactions_paragraphs E fs rs
              @ closing_paragraphs info rs"
    by (simp add: body_paragraphs_def)
  from ok show "list_all para_ok (source_paragraphs info lang)" by (rule source_paragraphs_in_body)
  from w show "write_file fs out = Inr fs'" .
next
  assume "docx_available E \<and> template_loads E fs tpl
        \<and> list_all para_ok (body_paragraphs E fs info rs lang)
        \<and> write_file fs out = Inr fs'"
  then show "create_word_document E fs info rs out lang tpl
          = Inr (True, fs', template_content E fs tpl @ body_paragraphs E fs info rs lang)"
    by (simp add: create_word_document_saved)
next
  assume "docx_available E \<and> template_loads E fs tpl
        \<and> \<not> list_all para_ok (body_paragraphs E fs info rs lang)"
  then show "create_word_document E fs info rs out lang tpl = Inl ValueError"
    by (simp add: create_word_document_raised)
qed

theorem experimental_text_truncated_witness:
  "length ex_long_text = 6000
   \<and> truncate_text ex_long_text = replicate 5000 97 @ truncation_marker
   \<and> length (truncate_text ex_long_text) = 5015
   \<and> truncate_text (U ''short'') = U ''short''
   \<and> source_paragraphs ex_info both
       = [Original_heading, Experimental_line (U ''compound 12 was prepared'') True]
   \<and> source_paragraphs (ex_text_info ex_long_text) en
       = [Original_heading, Experimental_line (replicate 5000 97) False, ex_marker_line]
   \<and> docx_available ex_env \<and> template_loads ex_env ex_out_fs None
   \<and> list_all para_ok (body_paragraphs ex_env ex_out_fs (ex_text_info ex_long_text) [] en)
   \<and> write_file ex_out_fs ex_doc_path = Inr (ex_out_fs @ [(ex_doc_path, File)])
   \<and> create_word_document ex_env ex_out_fs (ex_text_info ex_long_text) [] ex_doc_path en None
       = Inr (True, ex_out_fs @ [(ex_doc_path, File)], ex_long_doc)
   \<and> ex_long_doc
       = template_content ex_env ex_out_fs None @ title_paragraphs (ex_text_info ex_long_text)
         @ source_paragraphs (ex_text_info ex_long_text) en
         @ props_paragraphs (ex_text_info ex_long_text) @ target_paragraphs en
         @ reactions_paragraphs ex_env ex_out_fs []
         @ closing_paragraphs (ex_text_info ex_long_text) []
   \<and> list_all para_ok (source_paragraphs (ex_text_info ex_long_text) en)
   \<and> \<not> list_all para_ok (body_paragraphs ex_env ex_out_fs (ex_text_info ex_form_feed_text) [] en)
   \<and> create_word_document ex_env ex_out_fs (ex_text_info ex_form_feed_text) [] ex_doc_path en None
       = Inl ValueError"
proof -
  note T = experimental_text_truncated
  have l: "length ex_long_text = 6000" by (simp add: ex_long_text_def)
  have t: "take 5000 ex_long_text = replicate 5000 97" by (simp add: ex_long_text_def)
  have m: "length truncation_marker = 15" by (simp add: truncation_marker_def)
  have s: "length (U ''short'') \<le> 5000" by simp
  have e: "(both = en \<or> both = both)
           \<and> experimental_text ex_info = U ''compound 12 was prepared''
           \<and> U ''compound 12 was prepared'' \<noteq> []"
    by (simp add: ex_info_def)
  have f: "line_paragraphs (compounds ex_info) (truncate_text (U ''compound 12 was prepared''))
           = [Experimental_line (U ''compound 12 was prepared'') True]"
    by (simp add: line_paragraphs_def truncate_text_def ex_info_def strip_def isspace_def
          compound_start_def startswith_def lower_def)
  from l T [where t = ex_long_text]
  have a: "truncate_text ex_long_text = take 5000 ex_long_text @ truncation_marker"
    and b: "length (truncate_text ex_long_text) = 5000 + length truncation_marker"
    by blast+
  from s T [where t = "U ''short''"]
  have c: "truncate_text (U ''short'') = U ''short''" by blast
  from e T [where t = "U ''compound 12 was prepared''" and lang = both and info = ex_info]
  have d: "source_paragraphs ex_info both
       = Original_heading
         # line_paragraphs (compounds ex_info) (truncate_text (U ''compound 12 was prepared''))"
    by blast
  have g: "(en = en \<or> en = both)
           \<and> experimental_text (ex_text_info ex_long_text) = ex_long_text
           \<and> length ex_long_text > 5000"
    by (simp add: ex_text_info_def l)
  have c0: "compounds (ex_text_info ex_long_text) = []" by (simp add: ex_text_info_def)
  have f0: "line_paragraphs [] (replicate 5000 97) = [Experimental_line (replicate 5000 97) False]"
    by (simp add: line_paragraphs_def split_lines_no_lf strip_def isspace_def compound_start_def)
  from g T [where t = ex_long_text and lang = en and info = "ex_text_info ex_long_text"]
  have "source_paragraphs (ex_text_info ex_long_text) en
          = Original_heading
            # line_paragraphs (compounds (ex_text_info ex_long_text)) (take 5000 ex_long_text)
            @ [Experimental_line (drop 2 truncation_marker)
                 (compound_start (compounds (ex_text_info ex_long_text))
                    (drop 2 truncation_marker))]"
    by blast
  then have h: "source_paragraphs (ex_text_info ex_long_text) en
       = [Original_heading, Experimental_line (replicate 5000 97) False, ex_marker_line]"
    by (simp only: c0 t f0) (simp add: ex_marker_line_def compound_start_def)
  have ok: "list_all para_ok (body_paragraphs ex_env ex_out_fs (ex_text_info ex_long_text) [] en)"
    by (simp only: ex_long_body ex_long_ok)
  from ex_docx_available ex_template(1) [of ex_out_fs] ok ex_save
    T [where E = ex_env and fs = ex_out_fs and info = "ex_text_info ex_long_text"
         and rs = "[]" and out = ex_doc_path and lang = en and tpl = None
         and fs' = "ex_out_fs @ [(ex_doc_path, File)]"]
  have "create_word_document ex_env ex_out_fs (ex_text_info ex_long_text) [] ex_doc_path en None
       = Inr (True, ex_out_fs @ [(ex_doc_path, File)],
              template_content ex_env ex_out_fs None
              @ body_paragraphs ex_env ex_out_fs (ex_text_info ex_long_text) [] en)"
    by blast
  then have r: "create_word_document ex_env ex_out_fs (ex_text_info ex_long_text) []
       ex_doc_path en None = Inr (True, ex_out_fs @ [(ex_doc_path, File)], ex_long_doc)"
    by (simp only: ex_template ex_long_body append_Nil)
  from r
    T [where E = ex_env and fs = ex_out_fs and info = "ex_text_info ex_long_text"
         and rs = "[]" and out = ex_doc_path and lang = en and tpl = None
         and fs' = "ex_out_fs @ [(ex_doc_path, File)]" and doc = ex_long_doc]
  have sd: "ex_long_doc
       = template_content ex_env ex_out_fs None @ title_paragraphs (ex_text_info ex_long_text)
         @ source_paragraphs (ex_text_info ex_long_text) en
         @ props_paragraphs (ex_text_info ex_long_text) @ target_paragraphs en
         @ reactions_paragraphs ex_env ex_out_fs []
         @ closing_paragraphs (ex_text_info ex_long_text) []"
    and so: "list_all para_ok (source_paragraphs (ex_text_info ex_long_text) en)"
    by blast+
  have bad: "\<not> list_all para_ok
       (body_paragraphs ex_env ex_out_fs (ex_text_info ex_form_feed_text) [] en)"
    by (rule ex_form_feed_rejected(1))
  from ex_docx_available ex_template(1) [of ex_out_fs] bad
    T [where E = ex_env and fs = ex_out_fs and info = "ex_text_info ex_form_feed_text"
         and rs = "[]" and out = ex_doc_path and lang = en and tpl = None]
  have v: "create_word_document ex_env ex_out_fs (ex_text_info ex_form_feed_text) []
       ex_doc_path en None = Inl ValueError"
    by blast
  have a': "truncate_text ex_long_text = replicate 5000 97 @ truncation_marker"
    using a by (simp only: t)
  have b': "length (truncate_text ex_long_text) = 5015" using b by (simp add: m)
  have d': "source_paragraphs ex_info both
       = [Original_heading, Experimental_line (U ''compound 12 was prepared'') True]"
    using d by (simp only: f)
  from l a' b' c d' h ex_docx_available ex_template(1) [of ex_out_fs] ok ex_save r sd so bad v
  show ?thesis by (intro conjI) assumption+
qed

theorem experimental_text_not_rendered_counterexample:
  "length ex_form_feed_text = 6000
   \<and> create_word_document ex_env ex_out_fs (ex_text_info ex_form_feed_text) [] ex_doc_path en None
       = Inl ValueError
   \<and> length ex_blank_text = 6000
   \<and> source_paragraphs (ex_text_info ex_blank_text) en = [Original_heading, ex_marker_line]
   \<and> source_paragraphs (ex_text_info []) en = [Original_heading, Not_extracted]"
proof -
  have "length ex_form_feed_text = 6000" by (simp add: ex_form_feed_text_def)
  moreover have "create_word_document ex_env ex_out_fs (ex_text_info ex_form_feed_text) []
       ex_doc_path en None = Inl ValueError"
    using ex_docx_available ex_template(1) [of ex_out_fs] ex_form_feed_rejected(1) [of ex_out_fs "[]"]
    by (simp add: create_word_document_raised)
  moreover have "length ex_blank_text = 6000" by (simp add: ex_blank_text_def)
  moreover note ex_blank_source
  moreover have "source_paragraphs (ex_text_info []) en = [Original_heading, Not_extracted]"
    by (simp add: source_paragraphs_def ex_text_info_def)
  ultimately show ?thesis by (intro conjI)
qed














subsection \<open>Orchestrators\<close>

lemma process_stages_errors:
  assumes "process_stages E fs pdf_path d a cfg r0 = (eo, r, fs')"
    and "\<not> success r0" and "errors r0 = []"
  shows "pdf_file r = pdf_file r0 \<and> (eo = None \<and> \<not> success r \<longrightarrow> errors r \<noteq> [])"
  using assms
  unfolding process_stages_def Let_def
  by (auto split: sum.splits prod.splits if_splits)

lemma process_pdf_returns:
  assumes "mkdir fs (out_dir @ [stem pdf_path]) = Inr fs1"
  shows "\<exists>result fs'. process_pdf E fs pdf_path out_dir a cfg = Inr (result, fs')
           \<and> pdf_file result = pdf_path \<and> (\<not> success result \<longrightarrow> errors result \<noteq> [])"
proof -
  let ?r0 = "\<lparr>pdf_file = pdf_path, output_dir = out_dir @ [stem pdf_path], success = False,
              errors = [], result_text_info = None, reactions_extracted = None,
              result_images_generated = None, output_doc = None, doc_size_kb = None,
              raw_data_file = None\<rparr>"
  obtain eo r fs' where
    s: "process_stages E fs1 pdf_path (out_dir @ [stem pdf_path]) a cfg ?r0 = (eo, r, fs')"
    by (cases "process_stages E fs1 pdf_path (out_dir @ [stem pdf_path]) a cfg ?r0") auto
  from process_stages_errors [OF s]
  have p: "pdf_file r = pdf_path" "eo = None \<and> \<not> success r \<longrightarrow> errors r \<noteq> []" by simp_all
  show ?thesis
  proof (cases eo)
    case None
    with assms s p show ?thesis by (simp add: process_pdf_def)
  next
    case (Some e)
    with assms s p show ?thesis by (simp add: process_pdf_def)
  qed
qed


lemma process_pdf_raises_iff:
  "(\<exists>e. process_pdf E fs p out_dir a cfg = Inl e) = (\<exists>e. mkdir fs (out_dir @ [stem p]) = Inl e)"
proof (cases "mkdir fs (out_dir @ [stem p])")
  case (Inl e)
  then show ?thesis by (simp add: process_pdf_def)
next
  case (Inr fs1)
  from process_pdf_returns [OF this, of E a cfg]
  obtain result fs' where "process_pdf E fs p out_dir a cfg = Inr (result, fs')" by blast
  with Inr show ?thesis by simp
qed


text \<open>The example batch, step by step.\<close>

lemma blocked_files:
  "find_pdf_files ex_blocked_fs (arg_input ex_args) (arg_include_si ex_args) = ex_files"
  by (simp add: find_pdf_files_def is_file_def is_dir_def glob_pdf_def ex_blocked_fs_def
        ex_fs_def name_def startswith_def ex_args_def ex_files_def)

lemma blocked_output: "mkdir_parents ex_blocked_fs (arg_output ex_args) = Inr ex_blocked_fs"
  by (simp add: mkdir_parents_def mkdir_def is_dir_def ex_blocked_fs_def ex_fs_def ex_args_def)

lemma blocked_process_pdf:
  "process_pdf ex_env ex_blocked_fs [U ''pdfs'', U ''paper.pdf''] (arg_output ex_args) a cfg
     = Inl OSError"
  by (simp add: process_pdf_def stem_def name_def mkdir_def is_dir_def exists_def
        ex_blocked_fs_def ex_fs_def ex_args_def)

lemma blocked_process_all:
  "process_all ex_env ex_blocked_fs ex_files (arg_output ex_args) a cfg = Inl OSError"
  unfolding ex_files_def by (simp only: process_all.simps blocked_process_pdf sum.case)

lemma ex_files_nonempty: "ex_files \<noteq> []"
  by (simp add: ex_files_def)

text \<open>
  C3, at the failing input. The batch is \<open>pdfs/paper.pdf\<close> and \<open>pdfs/sub/other.pdf\<close>; the
  output directory holds a regular file \<open>out/paper\<close>. The \<open>mkdir\<close> of line 527 raises
  FileExistsError before the \<open>try\<close> of process\_pdf is entered, the exception leaves
  process\_pdf and \<open>main\<close>: no ProcessResult is produced for either file.
\<close>

theorem mkdir_failure_aborts_batch:
  "find_pdf_files ex_blocked_fs (arg_input ex_args) (arg_include_si ex_args) = ex_files
   \<and> length ex_files = 2
   \<and> process_pdf ex_env ex_blocked_fs [U ''pdfs'', U ''paper.pdf''] (arg_output ex_args)
        ex_args \<lparr>save_raw_data = False\<rparr> = Inl OSError
   \<and> main ex_env ex_blocked_fs ex_args = Inl OSError"
proof -
  have "main ex_env ex_blocked_fs ex_args = Inl OSError"
    by (simp add: main_def ex_files_nonempty blocked_files blocked_output blocked_process_all)
  moreover have "length ex_files = 2" by (simp add: ex_files_def)
  ultimately show ?thesis
    using blocked_files blocked_process_pdf by blast
qed




























end
